theory Spec2Isabelle
  imports Complex_Main
begin

section \<open>Shared values\<close>

text \<open>
  The gRPC status codes of \<^verbatim>\<open>@grpc/grpc-js\<close>, in the order of their numbers 0 to 16.
  An \<^verbatim>\<open>RpcException\<close> is its code with its message.
\<close>

datatype grpc_status =
    OK | CANCELLED | UNKNOWN | INVALID_ARGUMENT | DEADLINE_EXCEEDED | NOT_FOUND
  | ALREADY_EXISTS | PERMISSION_DENIED | RESOURCE_EXHAUSTED | FAILED_PRECONDITION
  | ABORTED | OUT_OF_RANGE | UNIMPLEMENTED | INTERNAL | UNAVAILABLE | DATA_LOSS
  | UNAUTHENTICATED

type_synonym rpc_exception = "grpc_status \<times> string"

text \<open>
  A \<^verbatim>\<open>Decimal\<close> of decimal.js is modelled by the rational number it denotes. An
  amount that crosses a service boundary as a decimal string (\<^verbatim>\<open>request.amount\<close>,
  \<^verbatim>\<open>exchangeRate.valueOf()\<close>) is the number the string denotes: the constructor and
  \<^verbatim>\<open>valueOf\<close> keep every digit, and \<^verbatim>\<open>lessThan\<close> compares the numbers.

  The repository never calls \<^verbatim>\<open>Decimal.set\<close>, so the library works at its default
  configuration: \<^verbatim>\<open>plus\<close>, \<^verbatim>\<open>minus\<close> and \<^verbatim>\<open>mul\<close> round their result to
  \<^verbatim>\<open>precision\<close> = 20 significant digits with the rounding mode \<^verbatim>\<open>ROUND_HALF_UP\<close> (to
  the nearest, ties away from zero). \<open>exponent x\<close> is the power of ten of the leading digit
  of \<open>x\<close>, and \<open>finalise\<close> is the rounding. The limits of the library on the exponent
  (\<^verbatim>\<open>maxE\<close> and \<^verbatim>\<open>minE\<close>, 9e15 in magnitude) are not modelled.

  The models declare the columns of amounts, balances and rates with the type
  \<^verbatim>\<open>decimal\<close> and neither precision nor scale, and a transformer that writes
  \<^verbatim>\<open>toString()\<close> and reads with the constructor: a stored decimal is read back as it was
  written.
\<close>

type_synonym decimal = rat

function digits :: "int \<Rightarrow> nat" where
  "digits n = (if n < 10 then 1 else Suc (digits (n div 10)))"
  by pat_completeness auto
termination
  by (relation "measure nat") auto

declare digits.simps [simp del]

definition precision :: nat where
  "precision = 20"

definition exponent :: "decimal \<Rightarrow> int" where
  "exponent x =
     (if 1 \<le> \<bar>x\<bar> then int (digits \<lfloor>\<bar>x\<bar>\<rfloor>) - 1
      else - int (digits (\<lceil>1 / \<bar>x\<bar>\<rceil> - 1)))"

definition finalise :: "decimal \<Rightarrow> decimal" where
  "finalise x =
     (if x = 0 then 0
      else (let k = int precision - 1 - exponent x in
            if 0 \<le> k then sgn x * of_int \<lfloor>\<bar>x\<bar> * 10 ^ nat k + 1 / 2\<rfloor> / 10 ^ nat k
            else sgn x * of_int \<lfloor>\<bar>x\<bar> / 10 ^ nat (- k) + 1 / 2\<rfloor> * 10 ^ nat (- k)))"

definition dec_plus :: "decimal \<Rightarrow> decimal \<Rightarrow> decimal" where
  "dec_plus x y = finalise (x + y)"

definition dec_minus :: "decimal \<Rightarrow> decimal \<Rightarrow> decimal" where
  "dec_minus x y = finalise (x - y)"

definition dec_mul :: "decimal \<Rightarrow> decimal \<Rightarrow> decimal" where
  "dec_mul x y = finalise (x * y)"


text \<open>
  Primary keys are generated by the database (\<^verbatim>\<open>PrimaryGeneratedColumn('uuid')\<close>). No
  row of any table is ever deleted, so a table is the list of its rows in insertion order
  and the key of a row is its position: an entity is a row together with its key.
\<close>

type_synonym 'a entity = "nat \<times> 'a"

definition findOne :: "('a entity \<Rightarrow> bool) \<Rightarrow> 'a list \<Rightarrow> 'a entity option" where
  "findOne P rows = find P (enumerate 0 rows)"

text \<open>
  \<open>findOne\<close> is the lookup by a key that the schema makes unique (the primary key, or the
  pair of user and currency of a wallet). A lookup of wallets by currency alone can match
  several rows, and the query (\<^verbatim>\<open>LIMIT 1\<close> with no \<^verbatim>\<open>ORDER BY\<close>) returns whichever of them
  the database comes to first. That choice is the parameter \<open>pick\<close>: it is given the
  matching rows and names one of them by its position among them.
\<close>

definition findOneWhere ::
  "('a entity list \<Rightarrow> nat) \<Rightarrow> ('a entity \<Rightarrow> bool) \<Rightarrow> 'a list \<Rightarrow> 'a entity option" where
  "findOneWhere pick P rows =
     (case filter P (enumerate 0 rows) of
        [] \<Rightarrow> None
      | m # ms \<Rightarrow> Some ((m # ms) ! (pick (m # ms) mod length (m # ms))))"

text \<open>Rendering of numbers in messages: \<^verbatim>\<open>${id}\<close> and \<^verbatim>\<open>Decimal.toFixed(dp)\<close>
  (rounding mode \<^verbatim>\<open>ROUND_HALF_UP\<close>: to the nearest, ties away from zero).\<close>

definition digit :: "nat \<Rightarrow> char" where
  "digit d = ''0123456789'' ! d"

function show_nat :: "nat \<Rightarrow> string" where
  "show_nat n = (if n < 10 then [digit n] else show_nat (n div 10) @ [digit (n mod 10)])"
  by pat_completeness auto
termination
  by (relation "measure id") auto

declare show_nat.simps [simp del]

definition pad_zeros :: "nat \<Rightarrow> string \<Rightarrow> string" where
  "pad_zeros k s = replicate (k - length s) CHR ''0'' @ s"

definition toFixed :: "nat \<Rightarrow> decimal \<Rightarrow> string" where
  "toFixed dp x =
     (let n = nat \<lfloor>\<bar>x\<bar> * 10 ^ dp + 1 / 2\<rfloor> in
      (if x < 0 then ''-'' else '''') @ show_nat (n div 10 ^ dp) @
      (if dp = 0 then '''' else ''.'' @ pad_zeros dp (show_nat (n mod 10 ^ dp))))"

section \<open>Wallet service\<close>

subsection \<open>Ledger store\<close>

datatype transaction_type = CREDIT | DEBIT | WITHDRAW | FUND

record wallet =
  w_userId :: string
  w_currency :: string
  w_balance :: decimal

record wallet_transaction =
  wt_wallet :: nat
  wt_type :: transaction_type
  wt_amount :: decimal
  wt_currency :: string
  wt_description :: string

record wallet_db =
  wallets :: "wallet list"
  walletTxns :: "wallet_transaction list"

text \<open>\<^verbatim>\<open>save\<close> of an entity that has a key updates its row; of one that has none,
  inserts a row, whose key is then the next position.\<close>

definition saveWallet :: "wallet entity \<Rightarrow> wallet_db \<Rightarrow> wallet_db" where
  "saveWallet e db = db\<lparr>wallets := (wallets db)[fst e := snd e]\<rparr>"

definition insertWallet :: "wallet \<Rightarrow> wallet_db \<Rightarrow> wallet_db" where
  "insertWallet w db = db\<lparr>wallets := wallets db @ [w]\<rparr>"

definition insertWalletTxn :: "wallet_transaction \<Rightarrow> wallet_db \<Rightarrow> wallet_db" where
  "insertWalletTxn t db = db\<lparr>walletTxns := walletTxns db @ [t]\<rparr>"

text \<open>
  \<^verbatim>\<open>dataSource.transaction(body)\<close>: the statements of the body run in order on the
  database; if one of them fails, or the commit does, nothing of the body is kept and
  the promise rejects. The point of failure is a parameter: \<open>None\<close> is a database that
  does not fail, \<open>Some k\<close> one that fails at statement \<open>k\<close> of the transaction (from 0;
  the commit comes after the last statement).
\<close>

fun run_statements :: "nat option \<Rightarrow> ('db \<Rightarrow> 'db) list \<Rightarrow> 'db \<Rightarrow> 'db option" where
  "run_statements fault [] db = (if fault = Some 0 then None else Some db)"
| "run_statements fault (w # ws) db =
     (case fault of
        None \<Rightarrow> run_statements None ws (w db)
      | Some 0 \<Rightarrow> None
      | Some (Suc k) \<Rightarrow> run_statements (Some k) ws (w db))"

definition transaction :: "nat option \<Rightarrow> ('db \<Rightarrow> 'db) list \<Rightarrow> 'db \<Rightarrow> (unit + unit) \<times> 'db" where
  "transaction fault body db =
     (case run_statements fault body db of
        None \<Rightarrow> (Inl (), db)
      | Some db' \<Rightarrow> (Inr (), db'))"

subsection \<open>Requests and responses\<close>

record wallet_request =
  rq_walletId :: nat
  rq_userId :: string
  rq_amount :: decimal

record create_wallet_request =
  cw_userId :: string
  cw_currency :: string

record get_wallet_balance_request =
  gb_userId :: string
  gb_walletCurrency :: string

record buy_forex_request =
  bf_amount :: decimal
  bf_baseCurrency :: string
  bf_targetCurrency :: string
  bf_userId :: string

record buy_forex_response =
  br_message :: string
  br_success :: bool
  br_exchangeRate :: decimal
  br_targetAmount :: decimal

record wallet_entity =
  we_walletId :: nat
  we_userId :: string
  we_balance :: string
  we_currency :: string

subsection \<open>WalletService\<close>

definition createWalletEntity :: "wallet entity \<Rightarrow> wallet_entity" where
  "createWalletEntity e =
     \<lparr>we_walletId = fst e, we_userId = w_userId (snd e),
      we_balance = toFixed 2 (w_balance (snd e)), we_currency = w_currency (snd e)\<rparr>"

definition validateSufficientFund :: "wallet entity \<Rightarrow> decimal \<Rightarrow> rpc_exception + bool" where
  "validateSufficientFund e amount =
     (if w_balance (snd e) < amount then Inl (INVALID_ARGUMENT, ''Insufficient balance'')
      else Inr True)"

definition handleWalletTransaction ::
  "nat option \<Rightarrow> wallet_request \<Rightarrow> transaction_type \<Rightarrow> string \<Rightarrow>
   (decimal \<Rightarrow> decimal \<Rightarrow> decimal) \<Rightarrow> (wallet entity \<Rightarrow> decimal \<Rightarrow> rpc_exception + bool) \<Rightarrow>
   wallet_db \<Rightarrow> (rpc_exception + wallet_entity) \<times> wallet_db" where
  "handleWalletTransaction fault request type description updateBalance validate db =
     (case findOne (\<lambda>e. fst e = rq_walletId request \<and> w_userId (snd e) = rq_userId request)
             (wallets db) of
        None \<Rightarrow>
          (Inl (NOT_FOUND, ''Could not find wallet ['' @ show_nat (rq_walletId request) @
                  ''] for user ['' @ rq_userId request @ '']''), db)
      | Some wallet \<Rightarrow>
          (let amount = rq_amount request in
           case validate wallet amount of
             Inl err \<Rightarrow> (Inl err, db)
           | Inr _ \<Rightarrow>
               (let wallet' = (fst wallet,
                      (snd wallet)\<lparr>w_balance := updateBalance (w_balance (snd wallet)) amount\<rparr>);
                    walletTransaction =
                      \<lparr>wt_wallet = fst wallet', wt_type = type, wt_amount = amount,
                       wt_currency = w_currency (snd wallet'), wt_description = description\<rparr>
                in case transaction fault
                          [saveWallet wallet', insertWalletTxn walletTransaction] db of
                     (Inl _, db') \<Rightarrow>
                       (Inl (ABORTED,
                          ''Could not process wallet transaction. Please try again later.''), db')
                   | (Inr _, db') \<Rightarrow> (Inr (createWalletEntity wallet'), db'))))"

text \<open>The integration service is outside the wallet service: \<open>convertCurrency\<close> is a
  parameter, which answers a pair of currencies with a rate or fails.\<close>

definition fetchExchangeRate ::
  "(string \<times> string \<Rightarrow> rpc_exception + decimal) \<Rightarrow> string \<times> string \<Rightarrow> rpc_exception + decimal" where
  "fetchExchangeRate convertCurrency request =
     (case convertCurrency request of
        Inl err \<Rightarrow> Inl (ABORTED, [])
      | Inr exchangeRate \<Rightarrow> Inr exchangeRate)"

definition fundWallet ::
  "nat option \<Rightarrow> wallet_request \<Rightarrow> wallet_db \<Rightarrow> (rpc_exception + wallet_entity) \<times> wallet_db" where
  "fundWallet fault request =
     handleWalletTransaction fault request FUND ''Fund wallet''
       (\<lambda>balance amount. dec_plus balance amount) (\<lambda>_ _. Inr True)"

definition withdrawWallet ::
  "nat option \<Rightarrow> wallet_request \<Rightarrow> wallet_db \<Rightarrow> (rpc_exception + wallet_entity) \<times> wallet_db" where
  "withdrawWallet fault request =
     handleWalletTransaction fault request WITHDRAW ''Withdrawal from wallet''
       (\<lambda>balance amount. dec_minus balance amount) validateSufficientFund"

definition createWallet ::
  "create_wallet_request \<Rightarrow> wallet_db \<Rightarrow> (rpc_exception + wallet_entity) \<times> wallet_db" where
  "createWallet request db =
     (case findOne (\<lambda>e. w_userId (snd e) = cw_userId request \<and>
                         w_currency (snd e) = cw_currency request) (wallets db) of
        Some existingWallet \<Rightarrow> (Inr (createWalletEntity existingWallet), db)
      | None \<Rightarrow>
          (let wallet = \<lparr>w_userId = cw_userId request, w_currency = cw_currency request,
                         w_balance = 0\<rparr>
           in (Inr (createWalletEntity (length (wallets db), wallet)), insertWallet wallet db)))"

definition getWalletBalance ::
  "get_wallet_balance_request \<Rightarrow> wallet_db \<Rightarrow> (rpc_exception + wallet_entity) \<times> wallet_db" where
  "getWalletBalance request db =
     (case findOne (\<lambda>e. w_userId (snd e) = gb_userId request \<and>
                         w_currency (snd e) = gb_walletCurrency request) (wallets db) of
        None \<Rightarrow>
          createWallet \<lparr>cw_userId = gb_userId request, cw_currency = gb_walletCurrency request\<rparr> db
      | Some wallet \<Rightarrow> (Inr (createWalletEntity wallet), db))"

text \<open>The target wallet of a purchase: the wallet found, or a new one, with the
  statements that the lookup adds to the running transaction.\<close>

definition getOrCreateTargetWalletInTxn ::
  "(wallet entity list \<Rightarrow> nat) \<Rightarrow> buy_forex_request \<Rightarrow> wallet_db \<Rightarrow>
   wallet entity \<times> (wallet_db \<Rightarrow> wallet_db) list" where
  "getOrCreateTargetWalletInTxn pick request db =
     (case findOneWhere pick (\<lambda>e. w_currency (snd e) = bf_targetCurrency request)
             (wallets db) of
        None \<Rightarrow>
          (let wallet = \<lparr>w_userId = bf_userId request, w_currency = bf_targetCurrency request,
                         w_balance = 0\<rparr>
           in ((length (wallets db), wallet), [insertWallet wallet]))
      | Some data \<Rightarrow> (data, []))"

definition findBaseWalletOrFail ::
  "(wallet entity list \<Rightarrow> nat) \<Rightarrow> string \<Rightarrow> wallet_db \<Rightarrow> rpc_exception + wallet entity" where
  "findBaseWalletOrFail pick currency db =
     (case findOneWhere pick (\<lambda>e. w_currency (snd e) = currency) (wallets db) of
        None \<Rightarrow> Inl (NOT_FOUND, ''Could not find base wallet'')
      | Some data \<Rightarrow> Inr data)"

text \<open>The body of the transaction of \<open>buyForex\<close>, as the list of its statements.\<close>

definition buyForex_body ::
  "(wallet entity list \<Rightarrow> nat) \<Rightarrow> buy_forex_request \<Rightarrow> wallet entity \<Rightarrow> decimal \<Rightarrow>
   decimal \<Rightarrow> wallet_db \<Rightarrow> (wallet_db \<Rightarrow> wallet_db) list" where
  "buyForex_body pick request baseWallet amount targetWalletAmount db =
     (case getOrCreateTargetWalletInTxn pick request db of
        (targetWallet, created) \<Rightarrow>
          (let baseWallet' = (fst baseWallet,
                 (snd baseWallet)\<lparr>w_balance := dec_minus (w_balance (snd baseWallet)) amount\<rparr>);
               targetWallet' = (fst targetWallet,
                 (snd targetWallet)\<lparr>w_balance :=
                    dec_plus (w_balance (snd targetWallet)) targetWalletAmount\<rparr>);
               baseWalletTxn =
                 \<lparr>wt_wallet = fst baseWallet', wt_type = DEBIT, wt_amount = amount,
                  wt_currency = w_currency (snd baseWallet'),
                  wt_description = ''Debit for forex purchase''\<rparr>;
               targetWalletTxn =
                 \<lparr>wt_wallet = fst targetWallet', wt_type = CREDIT, wt_amount = targetWalletAmount,
                  wt_currency = w_currency (snd targetWallet'),
                  wt_description = ''Credit for forex purchase''\<rparr>
           in created @
              [saveWallet baseWallet', saveWallet targetWallet',
               insertWalletTxn baseWalletTxn, insertWalletTxn targetWalletTxn]))"

definition wallet_buyForex ::
  "(wallet entity list \<Rightarrow> nat) \<Rightarrow> (string \<times> string \<Rightarrow> rpc_exception + decimal) \<Rightarrow>
   nat option \<Rightarrow> buy_forex_request \<Rightarrow> wallet_db \<Rightarrow>
   (rpc_exception + buy_forex_response) \<times> wallet_db" where
  "wallet_buyForex pick convertCurrency fault request db =
     (case findBaseWalletOrFail pick (bf_baseCurrency request) db of
        Inl err \<Rightarrow> (Inl err, db)
      | Inr baseWallet \<Rightarrow>
          (let amount = bf_amount request in
           case validateSufficientFund baseWallet amount of
             Inl err \<Rightarrow> (Inl err, db)
           | Inr _ \<Rightarrow>
               (case fetchExchangeRate convertCurrency
                       (bf_baseCurrency request, bf_targetCurrency request) of
                  Inl err \<Rightarrow> (Inl err, db)
                | Inr exchangeRate \<Rightarrow>
                    (let targetWalletAmount = dec_mul amount exchangeRate in
                     case transaction fault
                            (buyForex_body pick request baseWallet amount targetWalletAmount db)
                            db of
                       (Inl _, db') \<Rightarrow>
                         (Inl (ABORTED, ''Could not complete forex purchase try again later''), db')
                     | (Inr _, db') \<Rightarrow>
                         (Inr \<lparr>br_message = ''success'', br_success = True,
                               br_exchangeRate = exchangeRate,
                               br_targetAmount = targetWalletAmount\<rparr>, db')))))"

section \<open>Transaction service\<close>

subsection \<open>Orders, executions, the retry queue and the notifications\<close>

datatype order_type = BUY | SELL

datatype order_status = Order_PENDING | Order_COMPLETED | Order_FAILED

datatype transaction_status = Txn_INITIATED | Txn_COMPLETED | Txn_FAILED

record forex_order =
  o_userId :: string
  o_userEmail :: string
  o_type :: order_type
  o_baseCurrency :: string
  o_targetCurrency :: string
  o_amount :: decimal
  o_status :: order_status
  o_retryAttempts :: int
  o_errorStatus :: "grpc_status option"
  o_errorMessage :: "string option"

record forex_transaction =
  t_userId :: string
  t_orderId :: nat
  t_baseCurrency :: string
  t_targetCurrency :: string
  t_amount :: decimal
  t_exchangeRate :: "decimal option"
  t_targetAmount :: "decimal option"
  t_status :: transaction_status
  t_errorStatus :: "grpc_status option"
  t_errorMessage :: "string option"

record retry_order_event =
  ev_orderId :: nat
  ev_transactionId :: nat
  ev_errMessage :: string
  ev_errCode :: grpc_status

record notification_email_event =
  em_html :: string
  em_text :: string
  em_subject :: string
  em_to :: string

text \<open>The state of the transaction service: its two tables, the jobs waiting in the
  queue \<^verbatim>\<open>forex_retry_queue\<close> and the e-mail events handed to the notification
  service, oldest first.\<close>

record transaction_db =
  forexOrders :: "forex_order list"
  forexTxns :: "forex_transaction list"
  retryQueue :: "retry_order_event list"
  notifications :: "notification_email_event list"

record order_result =
  message :: string
  forexOrderId :: nat
  forexTransactionId :: nat

record buy_forex_options =
  op_baseCurrency :: string
  op_targetCurrency :: string
  op_amount :: decimal
  op_userId :: string
  op_userEmail :: string

datatype transaction_email =
    EmailFailure string string nat nat string
  | EmailSuccess string string nat nat string string string

text \<open>\<^verbatim>\<open>repo.update(id, fields)\<close> changes the row of that key, if there is one.\<close>

definition updateById :: "nat \<Rightarrow> ('a \<Rightarrow> 'a) \<Rightarrow> 'a list \<Rightarrow> 'a list" where
  "updateById i f rows = (if i < length rows then rows[i := f (rows ! i)] else rows)"

definition findOneById :: "nat \<Rightarrow> 'a list \<Rightarrow> 'a entity option" where
  "findOneById i rows = (if i < length rows then Some (i, rows ! i) else None)"

definition enqueue :: "retry_order_event \<Rightarrow> transaction_db \<Rightarrow> transaction_db" where
  "enqueue order t = t\<lparr>retryQueue := retryQueue t @ [order]\<rparr>"

definition notifyUser :: "notification_email_event \<Rightarrow> transaction_db \<Rightarrow> transaction_db" where
  "notifyUser payload t = t\<lparr>notifications := notifications t @ [payload]\<rparr>"

subsection \<open>TransactionsService\<close>

fun createTransactionEmail :: "transaction_email \<Rightarrow> notification_email_event" where
  "createTransactionEmail (EmailFailure userEmail targetCurrency orderId transactionId baseCurrency) =
     \<lparr>em_html = [],
      em_text = ''Your purchase of '' @ targetCurrency @ '', with order id: '' @
                show_nat orderId @ '' failed'',
      em_subject = ''Forex purchase failed'', em_to = userEmail\<rparr>"
| "createTransactionEmail
     (EmailSuccess userEmail targetCurrency orderId transactionId baseCurrency targetAmount
        exchangeRate) =
     \<lparr>em_html = [],
      em_text = ''Your purchase of '' @ targetCurrency @ '', with order id: '' @
                show_nat orderId @ '' succeeded. Your '' @ targetCurrency @
                '' wallet was credited '' @ targetAmount @ '' at an exchange rate of 1 '' @
                baseCurrency @ '' --> '' @ exchangeRate @ '' '' @ targetCurrency,
      em_subject = ''Forex purchase completed'', em_to = userEmail\<rparr>"

definition failOrder ::
  "forex_order entity \<Rightarrow> forex_transaction entity \<Rightarrow> string \<Rightarrow> grpc_status \<Rightarrow> bool \<Rightarrow>
   transaction_db \<Rightarrow> order_result \<times> transaction_db" where
  "failOrder forexOrder forexTxn errMessage errCode hardFail t =
     (let t1 = t\<lparr>forexTxns := updateById (fst forexTxn)
                   (\<lambda>x. x\<lparr>t_status := Txn_FAILED, t_errorMessage := Some errMessage,
                            t_errorStatus := Some errCode\<rparr>) (forexTxns t)\<rparr>
      in if hardFail then
           (let t2 = t1\<lparr>forexOrders := updateById (fst forexOrder)
                         (\<lambda>x. x\<lparr>o_status := Order_FAILED, o_errorMessage := Some errMessage,
                                  o_errorStatus := Some errCode\<rparr>) (forexOrders t1)\<rparr>;
                emailPayload = createTransactionEmail
                  (EmailFailure (o_userEmail (snd forexOrder)) (o_targetCurrency (snd forexOrder))
                     (fst forexOrder) (fst forexTxn) (o_baseCurrency (snd forexOrder)))
            in (\<lparr>message = ''Permanent failure: '' @ errMessage,
                 forexOrderId = fst forexOrder, forexTransactionId = fst forexTxn\<rparr>,
                notifyUser emailPayload t2))
         else
           (\<lparr>message = ''Temporary failure; Retrying order'',
             forexOrderId = fst forexOrder, forexTransactionId = fst forexTxn\<rparr>,
            enqueue \<lparr>ev_orderId = fst forexOrder, ev_transactionId = fst forexTxn,
                     ev_errMessage = errMessage, ev_errCode = errCode\<rparr> t1))"

text \<open>The two updates of \<open>succeedOrder\<close> are one database transaction of the transaction
  service; its database is taken not to fail.\<close>

definition succeedOrder ::
  "forex_order entity \<Rightarrow> forex_transaction entity \<Rightarrow> buy_forex_response \<Rightarrow>
   transaction_db \<Rightarrow> order_result \<times> transaction_db" where
  "succeedOrder forexOrder forexTxn walletResponse t =
     (let exchangeRate = br_exchangeRate walletResponse;
          targetAmount = br_targetAmount walletResponse;
          t1 = t\<lparr>forexOrders := updateById (fst forexOrder)
                   (\<lambda>x. x\<lparr>o_status := Order_COMPLETED\<rparr>) (forexOrders t)\<rparr>;
          t2 = t1\<lparr>forexTxns := updateById (fst forexTxn)
                   (\<lambda>x. x\<lparr>t_status := Txn_COMPLETED, t_exchangeRate := Some exchangeRate,
                            t_targetAmount := Some targetAmount\<rparr>) (forexTxns t1)\<rparr>;
          emailPayload = createTransactionEmail
            (EmailSuccess (o_userEmail (snd forexOrder)) (o_targetCurrency (snd forexOrder))
               (fst forexOrder) (fst forexTxn) (o_baseCurrency (snd forexOrder))
               (toFixed 2 targetAmount) (toFixed 4 exchangeRate))
      in (\<lparr>message = ''Order completed'',
           forexOrderId = fst forexOrder, forexTransactionId = fst forexTxn\<rparr>,
          notifyUser emailPayload t2))"

text \<open>
  The wallet service is reached over gRPC. The client is the parameter \<open>W\<close>: a call takes
  the state \<open>'w\<close> of everything behind the client and the request, and answers with a
  response or with the error of the call.
\<close>

type_synonym 'w wallet_client =
  "'w \<Rightarrow> buy_forex_request \<Rightarrow> (rpc_exception + buy_forex_response) \<times> 'w"

text \<open>The row that \<open>processForexPurchase\<close> creates for an execution of an order, and the
  request that it sends to the wallet service.\<close>

definition initiatedForexTxn :: "forex_order entity \<Rightarrow> forex_transaction" where
  "initiatedForexTxn forexOrder =
     \<lparr>t_userId = o_userId (snd forexOrder), t_orderId = fst forexOrder,
      t_baseCurrency = o_baseCurrency (snd forexOrder),
      t_targetCurrency = o_targetCurrency (snd forexOrder),
      t_amount = o_amount (snd forexOrder),
      t_exchangeRate = None, t_targetAmount = None, t_status = Txn_INITIATED,
      t_errorStatus = None, t_errorMessage = None\<rparr>"

definition buyForexRequest :: "forex_order entity \<Rightarrow> buy_forex_request" where
  "buyForexRequest forexOrder =
     \<lparr>bf_amount = o_amount (snd forexOrder),
      bf_baseCurrency = o_baseCurrency (snd forexOrder),
      bf_targetCurrency = o_targetCurrency (snd forexOrder),
      bf_userId = o_userId (snd forexOrder)\<rparr>"

definition processForexPurchase ::
  "'w wallet_client \<Rightarrow> forex_order entity \<Rightarrow> transaction_db \<times> 'w \<Rightarrow>
   order_result \<times> transaction_db \<times> 'w" where
  "processForexPurchase W forexOrder s =
     (case s of (t, w) \<Rightarrow>
        (let row = initiatedForexTxn forexOrder;
             forexTxn = (length (forexTxns t), row);
             t1 = t\<lparr>forexTxns := forexTxns t @ [row]\<rparr>
         in case W w (buyForexRequest forexOrder) of
              (Inr res, w') \<Rightarrow>
                (case succeedOrder forexOrder forexTxn res t1 of (r, t2) \<Rightarrow> (r, t2, w'))
            | (Inl err, w') \<Rightarrow>
                (case (case fst err of
                         NOT_FOUND \<Rightarrow> failOrder forexOrder forexTxn (snd err) (fst err) True t1
                       | INVALID_ARGUMENT \<Rightarrow>
                           failOrder forexOrder forexTxn (snd err) (fst err) True t1
                       | ABORTED \<Rightarrow> failOrder forexOrder forexTxn (snd err) (fst err) False t1
                       | _ \<Rightarrow> failOrder forexOrder forexTxn (snd err) (fst err) False t1) of
                   (r, t2) \<Rightarrow> (r, t2, w'))))"

definition transactions_buyForex ::
  "'w wallet_client \<Rightarrow> buy_forex_options \<Rightarrow> transaction_db \<times> 'w \<Rightarrow>
   order_result \<times> transaction_db \<times> 'w" where
  "transactions_buyForex W options s =
     (case s of (t, w) \<Rightarrow>
        (let row = \<lparr>o_userId = op_userId options, o_userEmail = op_userEmail options,
                    o_type = BUY, o_baseCurrency = op_baseCurrency options,
                    o_targetCurrency = op_targetCurrency options, o_amount = op_amount options,
                    o_status = Order_PENDING, o_retryAttempts = 0, o_errorStatus = None,
                    o_errorMessage = None\<rparr>;
             forexOrder = (length (forexOrders t), row)
         in processForexPurchase W forexOrder (t\<lparr>forexOrders := forexOrders t @ [row]\<rparr>, w)))"

subsection \<open>RetryOrderConsumer\<close>

text \<open>\<^verbatim>\<open>configService.get('MAX_FOREX_RETRIES', 3)\<close>: the configured value, or 3.\<close>

definition maxForexRetries :: "int option \<Rightarrow> int" where
  "maxForexRetries config = (case config of None \<Rightarrow> 3 | Some n \<Rightarrow> n)"

definition handleRetry ::
  "'w wallet_client \<Rightarrow> int option \<Rightarrow> retry_order_event \<Rightarrow> transaction_db \<times> 'w \<Rightarrow>
   transaction_db \<times> 'w" where
  "handleRetry W config data s =
     (case s of (t, w) \<Rightarrow>
        (let maxRetries = maxForexRetries config;
             t1 = t\<lparr>forexOrders := updateById (ev_orderId data)
                      (\<lambda>x. x\<lparr>o_retryAttempts := o_retryAttempts x + 1\<rparr>) (forexOrders t)\<rparr>
         in case (findOneById (ev_orderId data) (forexOrders t1),
                  findOneById (ev_transactionId data) (forexTxns t1)) of
              (Some forexOrder, Some forexTxn) \<Rightarrow>
                (if o_retryAttempts (snd forexOrder) \<ge> maxRetries then
                   (case failOrder forexOrder forexTxn (ev_errMessage data) (ev_errCode data)
                           True t1 of
                      (r, t2) \<Rightarrow> (t2, w))
                 else
                   (case processForexPurchase W forexOrder (t1, w) of (r, t2, w') \<Rightarrow> (t2, w')))
            | _ \<Rightarrow> (t1, w)))"

text \<open>The worker of the queue: it takes the oldest job and hands it to \<open>handleRetry\<close>,
  until the queue is empty. \<open>fuel\<close> bounds the number of jobs it takes.\<close>

fun worker ::
  "'w wallet_client \<Rightarrow> int option \<Rightarrow> nat \<Rightarrow> transaction_db \<times> 'w \<Rightarrow> transaction_db \<times> 'w" where
  "worker W config 0 s = s"
| "worker W config (Suc fuel) s =
     (case retryQueue (fst s) of
        [] \<Rightarrow> s
      | job # rest \<Rightarrow>
          worker W config fuel (handleRetry W config job ((fst s)\<lparr>retryQueue := rest\<rparr>, snd s)))"

section \<open>Example states\<close>

text \<open>One exchange rate: 1 USD is 1.10 EUR.\<close>

definition usd_eur :: "string \<times> string \<Rightarrow> rpc_exception + decimal" where
  "usd_eur p = (if p = (''USD'', ''EUR'') then Inr (11 / 10) else Inl (NOT_FOUND, ''no rate''))"

definition alice_usd :: "decimal \<Rightarrow> wallet_db" where
  "alice_usd b =
     \<lparr>wallets = [\<lparr>w_userId = ''alice'', w_currency = ''USD'', w_balance = b\<rparr>], walletTxns = []\<rparr>"

definition buy_usd_eur :: "string \<Rightarrow> decimal \<Rightarrow> buy_forex_request" where
  "buy_usd_eur u a =
     \<lparr>bf_amount = a, bf_baseCurrency = ''USD'', bf_targetCurrency = ''EUR'', bf_userId = u\<rparr>"

definition empty_transaction_db :: transaction_db where
  "empty_transaction_db = \<lparr>forexOrders = [], forexTxns = [], retryQueue = [], notifications = []\<rparr>"

definition alice_order :: forex_order where
  "alice_order =
     \<lparr>o_userId = ''alice'', o_userEmail = ''alice@example.com'', o_type = BUY,
      o_baseCurrency = ''USD'', o_targetCurrency = ''EUR'', o_amount = 100,
      o_status = Order_PENDING, o_retryAttempts = 0, o_errorStatus = None,
      o_errorMessage = None\<rparr>"

definition alice_options :: buy_forex_options where
  "alice_options =
     \<lparr>op_baseCurrency = ''USD'', op_targetCurrency = ''EUR'', op_amount = 100,
      op_userId = ''alice'', op_userEmail = ''alice@example.com''\<rparr>"

text \<open>A wallet client whose every call fails with the given code, and the client of
  the wallet service above, with the rate \<open>usd_eur\<close> and a database that does not fail.\<close>

definition failing_client :: "grpc_status \<Rightarrow> unit wallet_client" where
  "failing_client c w request = (Inl (c, ''wallet call failed''), w)"

definition wallet_client_usd_eur :: "(wallet entity list \<Rightarrow> nat) \<Rightarrow> wallet_db wallet_client" where
  "wallet_client_usd_eur pick db request = wallet_buyForex pick usd_eur None request db"

text \<open>A database that returns the oldest of the matching rows.\<close>

definition oldest_first :: "'a entity list \<Rightarrow> nat" where
  "oldest_first ms = 0"


text \<open>The code of the error of a call, if the call failed.\<close>

definition error_code :: "rpc_exception + 'a \<Rightarrow> grpc_status option" where
  "error_code r = (case r of Inl err \<Rightarrow> Some (fst err) | Inr _ \<Rightarrow> None)"

text \<open>The retry job of the first execution of Alice's order, when that execution fails
  because the wallet service is unavailable.\<close>

definition alice_job :: retry_order_event where
  "alice_job =
     \<lparr>ev_orderId = 0, ev_transactionId = 0, ev_errMessage = ''wallet call failed'',
      ev_errCode = UNAVAILABLE\<rparr>"

text \<open>The state with Alice's order alone, before any execution.\<close>

definition alice_pending :: transaction_db where
  "alice_pending = empty_transaction_db\<lparr>forexOrders := [alice_order]\<rparr>"

text \<open>Alice's wallets with the given balances in USD and EUR, after \<open>n\<close> purchases of
  110 EUR for 100 USD.\<close>

definition alice_after :: "decimal \<Rightarrow> decimal \<Rightarrow> nat \<Rightarrow> wallet_db" where
  "alice_after usd eur n =
     \<lparr>wallets = [\<lparr>w_userId = ''alice'', w_currency = ''USD'', w_balance = usd\<rparr>,
                 \<lparr>w_userId = ''alice'', w_currency = ''EUR'', w_balance = eur\<rparr>],
      walletTxns = concat (replicate n
        [\<lparr>wt_wallet = 0, wt_type = DEBIT, wt_amount = 100, wt_currency = ''USD'',
          wt_description = ''Debit for forex purchase''\<rparr>,
         \<lparr>wt_wallet = 1, wt_type = CREDIT, wt_amount = 110, wt_currency = ''EUR'',
          wt_description = ''Credit for forex purchase''\<rparr>])\<rparr>"

text \<open>The state in which Alice's order has one execution on record.\<close>

definition alice_initiated :: transaction_db where
  "alice_initiated = alice_pending\<lparr>forexTxns := [initiatedForexTxn (0, alice_order)]\<rparr>"

text \<open>A wallet client that is unavailable for its first call and reaches the wallet
  service from then on, and the state after Alice's order has failed once and its retry
  job has been worked off.\<close>

definition flaky_client :: "(wallet entity list \<Rightarrow> nat) \<Rightarrow> (bool \<times> wallet_db) wallet_client" where
  "flaky_client pick s request =
     (if fst s then (Inl (UNAVAILABLE, ''wallet call failed''), (False, snd s))
      else (case wallet_buyForex pick usd_eur None request (snd s) of
              (r, db') \<Rightarrow> (r, (False, db'))))"

definition alice_retried :: "(wallet entity list \<Rightarrow> nat) \<Rightarrow> transaction_db \<times> bool \<times> wallet_db" where
  "alice_retried pick =
     worker (flaky_client pick) None 1
       (snd (transactions_buyForex (flaky_client pick) alice_options
               (empty_transaction_db, (True, alice_usd 1000))))"

section \<open>Properties of the wallet service\<close>

subsection \<open>Lookups\<close>

lemma findOne_SomeD:
  assumes "findOne P rows = Some e"
  shows "fst e < length rows \<and> snd e = rows ! fst e \<and> P e"
proof -
  from assms obtain i where i: "i < length (enumerate 0 rows)" "P (enumerate 0 rows ! i)"
    "e = enumerate 0 rows ! i"
    unfolding findOne_def find_Some_iff by blast
  then show ?thesis by (simp add: nth_enumerate_eq)
qed

lemma findOne_None_iff: "findOne P rows = None \<longleftrightarrow> (\<forall>i<length rows. \<not> P (i, rows ! i))"
  unfolding findOne_def find_None_iff by (auto simp: in_set_enumerate_eq)

lemma findOne_first:
  assumes "i < length rows" "P (i, rows ! i)" "\<forall>j<i. \<not> P (j, rows ! j)"
  shows "findOne P rows = Some (i, rows ! i)"
  unfolding findOne_def find_Some_iff using assms
  by (intro exI[of _ i]) (simp add: nth_enumerate_eq)

lemma findOne_by_id:
  "findOne (\<lambda>e. fst e = i \<and> Q (snd e)) rows =
     (if i < length rows \<and> Q (rows ! i) then Some (i, rows ! i) else None)"
proof (cases "i < length rows \<and> Q (rows ! i)")
  case True
  then show ?thesis using findOne_first[of i rows "\<lambda>e. fst e = i \<and> Q (snd e)"] by simp
next
  case False
  then have "findOne (\<lambda>e. fst e = i \<and> Q (snd e)) rows = None"
    unfolding findOne_None_iff by auto
  with False show ?thesis by simp
qed

lemma toFixed_2_zero: "toFixed 2 0 = ''0.00''"
  by code_simp

text \<open>
  C10: \<open>getWalletBalance\<close> never fails. When the user has no wallet in the currency, it
  inserts a wallet of balance 0 for that user and currency and returns it; when the user
  has one, it returns that wallet and leaves the database as it was.
\<close>

theorem getWalletBalance_lazy_create:
  "(\<exists>e. fst (getWalletBalance request db) = Inr e) \<and>
   ((\<forall>i<length (wallets db).
        \<not> (w_userId (wallets db ! i) = gb_userId request \<and>
           w_currency (wallets db ! i) = gb_walletCurrency request)) \<longrightarrow>
      getWalletBalance request db =
        (Inr \<lparr>we_walletId = length (wallets db), we_userId = gb_userId request,
              we_balance = ''0.00'', we_currency = gb_walletCurrency request\<rparr>,
         db\<lparr>wallets := wallets db @
               [\<lparr>w_userId = gb_userId request, w_currency = gb_walletCurrency request,
                 w_balance = 0\<rparr>]\<rparr>)) \<and>
   (\<forall>i<length (wallets db).
      w_userId (wallets db ! i) = gb_userId request \<and>
      w_currency (wallets db ! i) = gb_walletCurrency request \<and>
      (\<forall>j<i. \<not> (w_userId (wallets db ! j) = gb_userId request \<and>
                 w_currency (wallets db ! j) = gb_walletCurrency request)) \<longrightarrow>
      getWalletBalance request db = (Inr (createWalletEntity (i, wallets db ! i)), db))"
proof -
  let ?P = "\<lambda>e. w_userId (snd e) = gb_userId request \<and> w_currency (snd e) = gb_walletCurrency request"
  have total: "\<exists>e. fst (getWalletBalance request db) = Inr e"
    by (simp add: getWalletBalance_def createWallet_def Let_def split: option.splits)
  have absent: "getWalletBalance request db =
        (Inr \<lparr>we_walletId = length (wallets db), we_userId = gb_userId request,
              we_balance = ''0.00'', we_currency = gb_walletCurrency request\<rparr>,
         db\<lparr>wallets := wallets db @
               [\<lparr>w_userId = gb_userId request, w_currency = gb_walletCurrency request,
                 w_balance = 0\<rparr>]\<rparr>)"
    if "\<forall>i<length (wallets db). \<not> ?P (i, wallets db ! i)"
  proof -
    from that have "findOne ?P (wallets db) = None" by (simp add: findOne_None_iff)
    then show ?thesis
      by (simp add: getWalletBalance_def createWallet_def Let_def createWalletEntity_def
          toFixed_2_zero insertWallet_def)
  qed
  have present: "getWalletBalance request db = (Inr (createWalletEntity (i, wallets db ! i)), db)"
    if "i < length (wallets db)" "?P (i, wallets db ! i)" "\<forall>j<i. \<not> ?P (j, wallets db ! j)" for i
    using findOne_first[OF that] by (simp add: getWalletBalance_def)
  show ?thesis using total absent present by simp
qed

theorem getWalletBalance_lazy_create_witness:
  "wallets (alice_usd 25) = [\<lparr>w_userId = ''alice'', w_currency = ''USD'', w_balance = 25\<rparr>] \<and>
   getWalletBalance \<lparr>gb_userId = ''bob'', gb_walletCurrency = ''USD''\<rparr> (alice_usd 25) =
     (Inr \<lparr>we_walletId = 1, we_userId = ''bob'', we_balance = ''0.00'', we_currency = ''USD''\<rparr>,
      \<lparr>wallets = [\<lparr>w_userId = ''alice'', w_currency = ''USD'', w_balance = 25\<rparr>,
                  \<lparr>w_userId = ''bob'', w_currency = ''USD'', w_balance = 0\<rparr>],
       walletTxns = []\<rparr>) \<and>
   getWalletBalance \<lparr>gb_userId = ''alice'', gb_walletCurrency = ''USD''\<rparr> (alice_usd 25) =
     (Inr \<lparr>we_walletId = 0, we_userId = ''alice'', we_balance = ''25.00'', we_currency = ''USD''\<rparr>,
      alice_usd 25)"
proof -
  have h: "\<forall>i<length (wallets (alice_usd 25)).
        \<not> (w_userId (wallets (alice_usd 25) ! i) = ''bob'' \<and>
           w_currency (wallets (alice_usd 25) ! i) = ''USD'')"
    by (simp add: alice_usd_def)
  have e: "createWalletEntity (0, wallets (alice_usd 25) ! 0) =
     \<lparr>we_walletId = 0, we_userId = ''alice'', we_balance = ''25.00'', we_currency = ''USD''\<rparr>"
    by code_simp
  from getWalletBalance_lazy_create[of "\<lparr>gb_userId = ''bob'', gb_walletCurrency = ''USD''\<rparr>" "alice_usd 25"] h
  have a: "getWalletBalance \<lparr>gb_userId = ''bob'', gb_walletCurrency = ''USD''\<rparr> (alice_usd 25) =
     (Inr \<lparr>we_walletId = 1, we_userId = ''bob'', we_balance = ''0.00'', we_currency = ''USD''\<rparr>,
      \<lparr>wallets = [\<lparr>w_userId = ''alice'', w_currency = ''USD'', w_balance = 25\<rparr>,
                  \<lparr>w_userId = ''bob'', w_currency = ''USD'', w_balance = 0\<rparr>],
       walletTxns = []\<rparr>)"
    by (simp add: alice_usd_def)
  from getWalletBalance_lazy_create[of "\<lparr>gb_userId = ''alice'', gb_walletCurrency = ''USD''\<rparr>" "alice_usd 25"]
  have b: "getWalletBalance \<lparr>gb_userId = ''alice'', gb_walletCurrency = ''USD''\<rparr> (alice_usd 25) =
     (Inr (createWalletEntity (0, wallets (alice_usd 25) ! 0)), alice_usd 25)"
    by (simp add: alice_usd_def)
  have w: "wallets (alice_usd 25) = [\<lparr>w_userId = ''alice'', w_currency = ''USD'', w_balance = 25\<rparr>]"
    by (simp add: alice_usd_def)
  show ?thesis using w a b e by simp
qed


lemma findOneWhere_None_iff:
  "findOneWhere pick P rows = None \<longleftrightarrow> (\<forall>i<length rows. \<not> P (i, rows ! i))"
proof -
  have "findOneWhere pick P rows = None \<longleftrightarrow> filter P (enumerate 0 rows) = []"
    by (simp add: findOneWhere_def split: list.splits)
  also have "\<dots> \<longleftrightarrow> (\<forall>i<length rows. \<not> P (i, rows ! i))"
    by (auto simp: filter_empty_conv in_set_enumerate_eq)
  finally show ?thesis .
qed

subsection \<open>Rounding of decimals\<close>










text \<open>The amounts of the examples have few digits: their sums, differences and products
  are not changed by the rounding.\<close>

lemma dec_examples:
  "dec_mul 100 (11 / 10) = 110" "dec_minus 1000 100 = 900" "dec_plus 0 110 = 110"
  "dec_minus 900 100 = 800" "dec_plus 110 110 = 220"
  "dec_mul (- 100) (11 / 10) = - 110" "dec_minus 0 (- 100) = 100" "dec_plus 0 (- 110) = - 110"
  by code_simp+

subsection \<open>Database transactions\<close>

lemma run_statements_fails:
  "k \<le> length ws \<Longrightarrow> run_statements (Some k) ws db = None"
proof (induction ws arbitrary: k db)
  case Nil
  then show ?case by simp
next
  case (Cons w ws)
  then show ?case by (cases k) simp_all
qed

lemma run_statements_no_fault:
  "run_statements None ws db = Some (foldl (\<lambda>d s. s d) db ws)"
  by (induction ws arbitrary: db) simp_all

lemma transaction_rolls_back:
  "fst (transaction fault body db) = Inl u \<Longrightarrow> snd (transaction fault body db) = db"
  by (simp add: transaction_def split: option.splits)

lemma buyForex_body_length:
  "length (buyForex_body pick q bw a ta db) = 4 \<or> length (buyForex_body pick q bw a ta db) = 5"
  by (simp add: buyForex_body_def getOrCreateTargetWalletInTxn_def Let_def split: option.splits)

lemma buyForex_body_txns:
  "walletTxns (foldl (\<lambda>d s. s d) db (buyForex_body pick q bw a ta db)) =
     walletTxns db @
       [\<lparr>wt_wallet = fst bw, wt_type = DEBIT, wt_amount = a, wt_currency = w_currency (snd bw),
         wt_description = ''Debit for forex purchase''\<rparr>,
        \<lparr>wt_wallet = fst (fst (getOrCreateTargetWalletInTxn pick q db)), wt_type = CREDIT,
         wt_amount = ta,
         wt_currency = w_currency (snd (fst (getOrCreateTargetWalletInTxn pick q db))),
         wt_description = ''Credit for forex purchase''\<rparr>]"
  by (simp add: buyForex_body_def getOrCreateTargetWalletInTxn_def Let_def saveWallet_def
      insertWallet_def insertWalletTxn_def split: option.splits)

subsection \<open>Insufficient funds\<close>

text \<open>
  C7, as amended: a withdrawal from a wallet of the user, or a forex purchase, whose
  source wallet holds less than the requested amount fails with the code
  \<open>INVALID_ARGUMENT\<close> (not \<open>FAILED_PRECONDITION\<close>) and the message "Insufficient balance",
  before any write: the database is returned as it was, so no balance has changed and
  no WalletTransaction row has been inserted. For the purchase this holds whichever of
  the wallets of the base currency the database returns.
\<close>

theorem insufficient_funds_fail_fast:
  "(rq_walletId r < length (wallets db) \<and>
    w_userId (wallets db ! rq_walletId r) = rq_userId r \<and>
    w_balance (wallets db ! rq_walletId r) < rq_amount r \<longrightarrow>
      withdrawWallet fault r db = (Inl (INVALID_ARGUMENT, ''Insufficient balance''), db)) \<and>
   (findBaseWalletOrFail pick (bf_baseCurrency q) db = Inr bw \<and>
    w_balance (snd bw) < bf_amount q \<longrightarrow>
      wallet_buyForex pick conv fault q db =
        (Inl (INVALID_ARGUMENT, ''Insufficient balance''), db))"
proof (intro conjI impI)
  assume a: "rq_walletId r < length (wallets db) \<and>
    w_userId (wallets db ! rq_walletId r) = rq_userId r \<and>
    w_balance (wallets db ! rq_walletId r) < rq_amount r"
  then have "findOne (\<lambda>e. fst e = rq_walletId r \<and> w_userId (snd e) = rq_userId r) (wallets db) =
      Some (rq_walletId r, wallets db ! rq_walletId r)"
    using findOne_by_id[of "rq_walletId r" "\<lambda>w. w_userId w = rq_userId r" "wallets db"]
    by simp
  with a show "withdrawWallet fault r db = (Inl (INVALID_ARGUMENT, ''Insufficient balance''), db)"
    by (simp add: withdrawWallet_def handleWalletTransaction_def validateSufficientFund_def)
next
  assume "findBaseWalletOrFail pick (bf_baseCurrency q) db = Inr bw \<and>
    w_balance (snd bw) < bf_amount q"
  then show "wallet_buyForex pick conv fault q db =
      (Inl (INVALID_ARGUMENT, ''Insufficient balance''), db)"
    by (simp add: wallet_buyForex_def validateSufficientFund_def)
qed

theorem insufficient_funds_fail_fast_witness:
  "w_balance (wallets (alice_usd 50) ! 0) < 100 \<and>
   withdrawWallet None \<lparr>rq_walletId = 0, rq_userId = ''alice'', rq_amount = 100\<rparr> (alice_usd 50) =
     (Inl (INVALID_ARGUMENT, ''Insufficient balance''), alice_usd 50) \<and>
   findBaseWalletOrFail oldest_first ''USD'' (alice_usd 50) =
     Inr (0, wallets (alice_usd 50) ! 0) \<and>
   wallet_buyForex oldest_first usd_eur None (buy_usd_eur ''alice'' 100) (alice_usd 50) =
     (Inl (INVALID_ARGUMENT, ''Insufficient balance''), alice_usd 50)"
proof -
  have b: "w_balance (wallets (alice_usd 50) ! 0) < 100"
    by (simp add: alice_usd_def)
  have f: "findBaseWalletOrFail oldest_first ''USD'' (alice_usd 50) =
      Inr (0, wallets (alice_usd 50) ! 0)"
    by code_simp
  have w: "withdrawWallet None \<lparr>rq_walletId = 0, rq_userId = ''alice'', rq_amount = 100\<rparr>
      (alice_usd 50) = (Inl (INVALID_ARGUMENT, ''Insufficient balance''), alice_usd 50)"
    using insufficient_funds_fail_fast
      [where r = "\<lparr>rq_walletId = 0, rq_userId = ''alice'', rq_amount = 100\<rparr>"
         and db = "alice_usd 50" and fault = None]
    by (simp add: alice_usd_def)
  have p: "wallet_buyForex oldest_first usd_eur None (buy_usd_eur ''alice'' 100) (alice_usd 50) =
      (Inl (INVALID_ARGUMENT, ''Insufficient balance''), alice_usd 50)"
    using insufficient_funds_fail_fast
      [where q = "buy_usd_eur ''alice'' 100" and db = "alice_usd 50"
         and bw = "(0, wallets (alice_usd 50) ! 0)" and conv = usd_eur and fault = None
         and pick = oldest_first] f b
    by (simp add: buy_usd_eur_def)
  show ?thesis using b w f p by simp
qed

text \<open>The claim as the specification states it fails: the code of the error is not
  \<open>FAILED_PRECONDITION\<close>.\<close>

theorem insufficient_funds_code_counterexample:
  "w_balance (wallets (alice_usd 50) ! 0) < 100 \<and>
   error_code (fst (withdrawWallet None
       \<lparr>rq_walletId = 0, rq_userId = ''alice'', rq_amount = 100\<rparr> (alice_usd 50))) =
     Some INVALID_ARGUMENT \<and>
   error_code (fst (withdrawWallet None
       \<lparr>rq_walletId = 0, rq_userId = ''alice'', rq_amount = 100\<rparr> (alice_usd 50))) \<noteq>
     Some FAILED_PRECONDITION \<and>
   error_code (fst (wallet_buyForex oldest_first usd_eur None (buy_usd_eur ''alice'' 100)
       (alice_usd 50))) \<noteq> Some FAILED_PRECONDITION"
  by code_simp

subsection \<open>Atomicity of the forex transfer\<close>

text \<open>
  C5: the transfer is one database transaction. Whatever error \<open>buyForex\<close> returns, the
  database is as it was before the call. When the checks before the transaction pass (the
  base wallet is found, it holds the amount, the rate is known) and the database fails at
  any statement of the transaction or at its commit, so also between the debit of the
  source and the credit of the target, the caller receives \<open>ABORTED\<close> and no wallet and
  no WalletTransaction row has changed. When the database does not fail, the statements of
  the body are all committed, and the ledger gains the DEBIT row and the CREDIT row. All
  of this holds whichever of the wallets of a currency the database returns.
\<close>

theorem buyForex_atomic:
  "(\<forall>e. fst (wallet_buyForex pick conv fault q db) = Inl e \<longrightarrow>
        snd (wallet_buyForex pick conv fault q db) = db) \<and>
   (findBaseWalletOrFail pick (bf_baseCurrency q) db = Inr bw \<and>
    \<not> w_balance (snd bw) < bf_amount q \<and>
    conv (bf_baseCurrency q, bf_targetCurrency q) = Inr rate \<longrightarrow>
      (\<forall>k \<le> length (buyForex_body pick q bw (bf_amount q) (dec_mul (bf_amount q) rate) db).
         wallet_buyForex pick conv (Some k) q db =
           (Inl (ABORTED, ''Could not complete forex purchase try again later''), db)) \<and>
      wallet_buyForex pick conv None q db =
        (Inr \<lparr>br_message = ''success'', br_success = True, br_exchangeRate = rate,
              br_targetAmount = dec_mul (bf_amount q) rate\<rparr>,
         foldl (\<lambda>d s. s d) db
           (buyForex_body pick q bw (bf_amount q) (dec_mul (bf_amount q) rate) db)) \<and>
      walletTxns (snd (wallet_buyForex pick conv None q db)) =
        walletTxns db @
          [\<lparr>wt_wallet = fst bw, wt_type = DEBIT, wt_amount = bf_amount q,
            wt_currency = w_currency (snd bw), wt_description = ''Debit for forex purchase''\<rparr>,
           \<lparr>wt_wallet = fst (fst (getOrCreateTargetWalletInTxn pick q db)), wt_type = CREDIT,
            wt_amount = dec_mul (bf_amount q) rate,
            wt_currency = w_currency (snd (fst (getOrCreateTargetWalletInTxn pick q db))),
            wt_description = ''Credit for forex purchase''\<rparr>])"
proof (intro conjI impI allI)
  fix e
  assume "fst (wallet_buyForex pick conv fault q db) = Inl e"
  then show "snd (wallet_buyForex pick conv fault q db) = db"
    by (auto simp: wallet_buyForex_def Let_def transaction_def
        split: sum.splits option.splits prod.splits)
next
  fix k
  assume pre: "findBaseWalletOrFail pick (bf_baseCurrency q) db = Inr bw \<and>
    \<not> w_balance (snd bw) < bf_amount q \<and>
    conv (bf_baseCurrency q, bf_targetCurrency q) = Inr rate"
    and k: "k \<le> length (buyForex_body pick q bw (bf_amount q) (dec_mul (bf_amount q) rate) db)"
  from k have "run_statements (Some k)
      (buyForex_body pick q bw (bf_amount q) (dec_mul (bf_amount q) rate) db) db = None"
    by (rule run_statements_fails)
  with pre show "wallet_buyForex pick conv (Some k) q db =
      (Inl (ABORTED, ''Could not complete forex purchase try again later''), db)"
    by (simp add: wallet_buyForex_def validateSufficientFund_def fetchExchangeRate_def
        transaction_def)
next
  assume pre: "findBaseWalletOrFail pick (bf_baseCurrency q) db = Inr bw \<and>
    \<not> w_balance (snd bw) < bf_amount q \<and>
    conv (bf_baseCurrency q, bf_targetCurrency q) = Inr rate"
  then show ok: "wallet_buyForex pick conv None q db =
        (Inr \<lparr>br_message = ''success'', br_success = True, br_exchangeRate = rate,
              br_targetAmount = dec_mul (bf_amount q) rate\<rparr>,
         foldl (\<lambda>d s. s d) db
           (buyForex_body pick q bw (bf_amount q) (dec_mul (bf_amount q) rate) db))"
    by (simp add: wallet_buyForex_def validateSufficientFund_def fetchExchangeRate_def
        transaction_def run_statements_no_fault Let_def)
  show "walletTxns (snd (wallet_buyForex pick conv None q db)) =
        walletTxns db @
          [\<lparr>wt_wallet = fst bw, wt_type = DEBIT, wt_amount = bf_amount q,
            wt_currency = w_currency (snd bw), wt_description = ''Debit for forex purchase''\<rparr>,
           \<lparr>wt_wallet = fst (fst (getOrCreateTargetWalletInTxn pick q db)), wt_type = CREDIT,
            wt_amount = dec_mul (bf_amount q) rate,
            wt_currency = w_currency (snd (fst (getOrCreateTargetWalletInTxn pick q db))),
            wt_description = ''Credit for forex purchase''\<rparr>]"
    by (simp only: ok snd_conv buyForex_body_txns)
qed

theorem buyForex_atomic_witness:
  "findBaseWalletOrFail oldest_first ''USD'' (alice_usd 1000) =
     Inr (0, wallets (alice_usd 1000) ! 0) \<and>
   \<not> w_balance (wallets (alice_usd 1000) ! 0) < 100 \<and>
   usd_eur (''USD'', ''EUR'') = Inr (11 / 10) \<and>
   (2::nat) \<le> length (buyForex_body oldest_first (buy_usd_eur ''alice'' 100)
                  (0, wallets (alice_usd 1000) ! 0) 100 (dec_mul 100 (11 / 10))
                  (alice_usd 1000)) \<and>
   wallet_buyForex oldest_first usd_eur (Some 2) (buy_usd_eur ''alice'' 100) (alice_usd 1000) =
     (Inl (ABORTED, ''Could not complete forex purchase try again later''), alice_usd 1000) \<and>
   fst (wallet_buyForex oldest_first usd_eur None (buy_usd_eur ''alice'' 100) (alice_usd 1000)) =
     Inr \<lparr>br_message = ''success'', br_success = True, br_exchangeRate = 11 / 10,
          br_targetAmount = dec_mul 100 (11 / 10)\<rparr>"
proof -
  let ?q = "buy_usd_eur ''alice'' 100"
  let ?bw = "(0::nat, wallets (alice_usd 1000) ! 0)"
  have f: "findBaseWalletOrFail oldest_first (bf_baseCurrency ?q) (alice_usd 1000) = Inr ?bw"
    by code_simp
  have b: "\<not> w_balance (snd ?bw) < bf_amount ?q"
    by (simp add: alice_usd_def buy_usd_eur_def)
  have r: "usd_eur (bf_baseCurrency ?q, bf_targetCurrency ?q) = Inr (11 / 10)"
    by (simp add: usd_eur_def buy_usd_eur_def)
  have k: "(2::nat) \<le> length (buyForex_body oldest_first ?q ?bw (bf_amount ?q)
      (dec_mul (bf_amount ?q) (11 / 10)) (alice_usd 1000))"
    using buyForex_body_length[of oldest_first ?q ?bw "bf_amount ?q"
        "dec_mul (bf_amount ?q) (11 / 10)" "alice_usd 1000"]
    by auto
  have am: "bf_amount ?q = 100" "bf_baseCurrency ?q = ''USD''" "bf_targetCurrency ?q = ''EUR''"
    by (simp_all add: buy_usd_eur_def)
  from buyForex_atomic[where conv = usd_eur and q = ?q and db = "alice_usd 1000" and bw = ?bw
      and rate = "11 / 10" and pick = oldest_first] f b r k
  have "wallet_buyForex oldest_first usd_eur (Some 2) ?q (alice_usd 1000) =
      (Inl (ABORTED, ''Could not complete forex purchase try again later''), alice_usd 1000) \<and>
    fst (wallet_buyForex oldest_first usd_eur None ?q (alice_usd 1000)) =
      Inr \<lparr>br_message = ''success'', br_success = True, br_exchangeRate = 11 / 10,
           br_targetAmount = dec_mul (bf_amount ?q) (11 / 10)\<rparr>"
    by simp
  with f b r k show ?thesis unfolding am snd_conv by blast
qed

subsection \<open>Whose wallet a purchase touches\<close>

lemma only_usd_wallet:
  "findOneWhere pick (\<lambda>e. w_currency (snd e) = ''USD'') (wallets (alice_usd b)) =
     Some (0, \<lparr>w_userId = ''alice'', w_currency = ''USD'', w_balance = b\<rparr>)"
  "findOneWhere pick (\<lambda>e. w_currency (snd e) = ''EUR'') (wallets (alice_usd b)) = None"
  by (simp_all add: findOneWhere_def alice_usd_def)

text \<open>
  C2: the lookups of \<open>buyForex\<close> are by currency alone. Alice holds the only USD wallet;
  Bob, who has no wallet, buys EUR for 100 USD: the purchase does not fail with
  \<open>NOT_FOUND\<close> but debits the wallet of Alice, and the ledger row of the debit names her
  wallet.
\<close>

theorem buyForex_debits_wallet_of_another_user:
  "wallet_buyForex pick usd_eur None (buy_usd_eur ''bob'' 100) (alice_usd 1000) =
     (Inr \<lparr>br_message = ''success'', br_success = True, br_exchangeRate = 11 / 10,
           br_targetAmount = 110\<rparr>,
      \<lparr>wallets = [\<lparr>w_userId = ''alice'', w_currency = ''USD'', w_balance = 900\<rparr>,
                  \<lparr>w_userId = ''bob'', w_currency = ''EUR'', w_balance = 110\<rparr>],
       walletTxns = [\<lparr>wt_wallet = 0, wt_type = DEBIT, wt_amount = 100, wt_currency = ''USD'',
                      wt_description = ''Debit for forex purchase''\<rparr>,
                     \<lparr>wt_wallet = 1, wt_type = CREDIT, wt_amount = 110, wt_currency = ''EUR'',
                      wt_description = ''Credit for forex purchase''\<rparr>]\<rparr>)"
  by (simp add: wallet_buyForex_def findBaseWalletOrFail_def only_usd_wallet buy_usd_eur_def
      validateSufficientFund_def fetchExchangeRate_def usd_eur_def transaction_def
      buyForex_body_def getOrCreateTargetWalletInTxn_def Let_def dec_examples
      saveWallet_def insertWallet_def insertWalletTxn_def)
    (simp add: alice_usd_def)

subsection \<open>Balances\<close>

text \<open>
  C4: \<open>buyForex\<close> takes any amount. For the amount -100 the check of the funds passes, the
  base wallet is credited 100 and the new target wallet is left with the balance -110.
\<close>

theorem buyForex_negative_amount_negative_balance:
  "wallets (snd (wallet_buyForex pick usd_eur None (buy_usd_eur ''alice'' (- 100))
     (alice_usd 0))) =
     [\<lparr>w_userId = ''alice'', w_currency = ''USD'', w_balance = 100\<rparr>,
      \<lparr>w_userId = ''alice'', w_currency = ''EUR'', w_balance = - 110\<rparr>] \<and>
   w_balance (wallets (snd (wallet_buyForex pick usd_eur None (buy_usd_eur ''alice'' (- 100))
     (alice_usd 0))) ! 1) < 0"
  by (simp add: wallet_buyForex_def findBaseWalletOrFail_def only_usd_wallet buy_usd_eur_def
      validateSufficientFund_def fetchExchangeRate_def usd_eur_def transaction_def
      buyForex_body_def getOrCreateTargetWalletInTxn_def Let_def dec_examples
      saveWallet_def insertWallet_def insertWalletTxn_def)
    (simp add: alice_usd_def)
section \<open>Properties of the transaction service\<close>

lemma updateById_length [simp]: "length (updateById i f rows) = length rows"
  by (simp add: updateById_def)

lemma updateById_nth:
  "j < length rows \<Longrightarrow> updateById i f rows ! j = (if j = i then f (rows ! j) else rows ! j)"
  by (simp add: updateById_def)

lemma updateById_last_appended:
  "updateById (length rows) f (rows @ [x]) = rows @ [f x]"
  by (simp add: updateById_def)

lemma failOrder_hard:
  "failOrder forexOrder (length (forexTxns t), row) msg c True (t\<lparr>forexTxns := forexTxns t @ [row]\<rparr>) =
     (\<lparr>message = ''Permanent failure: '' @ msg, forexOrderId = fst forexOrder,
       forexTransactionId = length (forexTxns t)\<rparr>,
      t\<lparr>forexOrders := updateById (fst forexOrder)
           (\<lambda>x. x\<lparr>o_status := Order_FAILED, o_errorMessage := Some msg, o_errorStatus := Some c\<rparr>)
           (forexOrders t),
        forexTxns := forexTxns t @
           [row\<lparr>t_status := Txn_FAILED, t_errorMessage := Some msg, t_errorStatus := Some c\<rparr>],
        notifications := notifications t @
           [createTransactionEmail
              (EmailFailure (o_userEmail (snd forexOrder)) (o_targetCurrency (snd forexOrder))
                 (fst forexOrder) (length (forexTxns t)) (o_baseCurrency (snd forexOrder)))]\<rparr>)"
  by (simp add: failOrder_def Let_def updateById_last_appended notifyUser_def)

lemma failOrder_soft:
  "failOrder forexOrder (length (forexTxns t), row) msg c False (t\<lparr>forexTxns := forexTxns t @ [row]\<rparr>) =
     (\<lparr>message = ''Temporary failure; Retrying order'', forexOrderId = fst forexOrder,
       forexTransactionId = length (forexTxns t)\<rparr>,
      t\<lparr>forexTxns := forexTxns t @
           [row\<lparr>t_status := Txn_FAILED, t_errorMessage := Some msg, t_errorStatus := Some c\<rparr>],
        retryQueue := retryQueue t @
           [\<lparr>ev_orderId = fst forexOrder, ev_transactionId = length (forexTxns t),
             ev_errMessage = msg, ev_errCode = c\<rparr>]\<rparr>)"
  by (simp add: failOrder_def Let_def updateById_last_appended enqueue_def)

lemma succeedOrder_appended:
  "succeedOrder forexOrder (length (forexTxns t), row) res (t\<lparr>forexTxns := forexTxns t @ [row]\<rparr>) =
     (\<lparr>message = ''Order completed'', forexOrderId = fst forexOrder,
       forexTransactionId = length (forexTxns t)\<rparr>,
      t\<lparr>forexOrders := updateById (fst forexOrder) (\<lambda>x. x\<lparr>o_status := Order_COMPLETED\<rparr>)
           (forexOrders t),
        forexTxns := forexTxns t @
           [row\<lparr>t_status := Txn_COMPLETED, t_exchangeRate := Some (br_exchangeRate res),
                t_targetAmount := Some (br_targetAmount res)\<rparr>],
        notifications := notifications t @
           [createTransactionEmail
              (EmailSuccess (o_userEmail (snd forexOrder)) (o_targetCurrency (snd forexOrder))
                 (fst forexOrder) (length (forexTxns t)) (o_baseCurrency (snd forexOrder))
                 (toFixed 2 (br_targetAmount res)) (toFixed 4 (br_exchangeRate res)))]\<rparr>)"
  by (simp add: succeedOrder_def Let_def updateById_last_appended notifyUser_def)

lemma processForexPurchase_permanent:
  assumes "W w (buyForexRequest forexOrder) = (Inl (c, msg), w')"
    and "c = NOT_FOUND \<or> c = INVALID_ARGUMENT"
  shows "processForexPurchase W forexOrder (t, w) =
     (\<lparr>message = ''Permanent failure: '' @ msg, forexOrderId = fst forexOrder,
       forexTransactionId = length (forexTxns t)\<rparr>,
      t\<lparr>forexOrders := updateById (fst forexOrder)
           (\<lambda>x. x\<lparr>o_status := Order_FAILED, o_errorMessage := Some msg, o_errorStatus := Some c\<rparr>)
           (forexOrders t),
        forexTxns := forexTxns t @
           [(initiatedForexTxn forexOrder)
              \<lparr>t_status := Txn_FAILED, t_errorMessage := Some msg, t_errorStatus := Some c\<rparr>],
        notifications := notifications t @
           [createTransactionEmail
              (EmailFailure (o_userEmail (snd forexOrder)) (o_targetCurrency (snd forexOrder))
                 (fst forexOrder) (length (forexTxns t)) (o_baseCurrency (snd forexOrder)))]\<rparr>,
      w')"
  using assms by (auto simp: processForexPurchase_def Let_def failOrder_hard)

lemma processForexPurchase_transient:
  assumes "W w (buyForexRequest forexOrder) = (Inl (c, msg), w')"
    and "c \<noteq> NOT_FOUND" "c \<noteq> INVALID_ARGUMENT"
  shows "processForexPurchase W forexOrder (t, w) =
     (\<lparr>message = ''Temporary failure; Retrying order'', forexOrderId = fst forexOrder,
       forexTransactionId = length (forexTxns t)\<rparr>,
      t\<lparr>forexTxns := forexTxns t @
           [(initiatedForexTxn forexOrder)
              \<lparr>t_status := Txn_FAILED, t_errorMessage := Some msg, t_errorStatus := Some c\<rparr>],
        retryQueue := retryQueue t @
           [\<lparr>ev_orderId = fst forexOrder, ev_transactionId = length (forexTxns t),
             ev_errMessage = msg, ev_errCode = c\<rparr>]\<rparr>,
      w')"
  using assms by (cases c) (simp_all add: processForexPurchase_def Let_def failOrder_soft)

lemma processForexPurchase_success:
  assumes "W w (buyForexRequest forexOrder) = (Inr res, w')"
  shows "processForexPurchase W forexOrder (t, w) =
     (\<lparr>message = ''Order completed'', forexOrderId = fst forexOrder,
       forexTransactionId = length (forexTxns t)\<rparr>,
      t\<lparr>forexOrders := updateById (fst forexOrder) (\<lambda>x. x\<lparr>o_status := Order_COMPLETED\<rparr>)
           (forexOrders t),
        forexTxns := forexTxns t @
           [(initiatedForexTxn forexOrder)
              \<lparr>t_status := Txn_COMPLETED, t_exchangeRate := Some (br_exchangeRate res),
               t_targetAmount := Some (br_targetAmount res)\<rparr>],
        notifications := notifications t @
           [createTransactionEmail
              (EmailSuccess (o_userEmail (snd forexOrder)) (o_targetCurrency (snd forexOrder))
                 (fst forexOrder) (length (forexTxns t)) (o_baseCurrency (snd forexOrder))
                 (toFixed 2 (br_targetAmount res)) (toFixed 4 (br_exchangeRate res)))]\<rparr>,
      w')"
  using assms by (simp add: processForexPurchase_def Let_def succeedOrder_appended)

subsection \<open>Classification of failures\<close>

text \<open>
  C3, as amended: when the call of the wallet service fails with \<open>NOT_FOUND\<close> or
  \<open>INVALID_ARGUMENT\<close>, the order and the ForexTransaction of this execution are marked
  FAILED with the code and the message, one failure notification is emitted and no retry
  job is enqueued. When it fails with any other code (\<open>ABORTED\<close>, \<open>DEADLINE_EXCEEDED\<close>,
  \<open>UNAVAILABLE\<close>, and also \<open>FAILED_PRECONDITION\<close>), only the ForexTransaction is marked
  FAILED, the orders are left as they were (a PENDING order stays PENDING), no
  notification is emitted and exactly one retry job is enqueued.
\<close>

theorem failure_classification:
  "W w (buyForexRequest (oid, ord)) = (Inl (c, msg), w') \<longrightarrow>
     (c = NOT_FOUND \<or> c = INVALID_ARGUMENT \<longrightarrow>
        snd (processForexPurchase W (oid, ord) (t, w)) =
          (t\<lparr>forexOrders := updateById oid
                (\<lambda>x. x\<lparr>o_status := Order_FAILED, o_errorMessage := Some msg,
                         o_errorStatus := Some c\<rparr>) (forexOrders t),
             forexTxns := forexTxns t @
                [(initiatedForexTxn (oid, ord))
                   \<lparr>t_status := Txn_FAILED, t_errorMessage := Some msg,
                    t_errorStatus := Some c\<rparr>],
             notifications := notifications t @
                [createTransactionEmail
                   (EmailFailure (o_userEmail ord) (o_targetCurrency ord) oid
                      (length (forexTxns t)) (o_baseCurrency ord))]\<rparr>, w') \<and>
        (oid < length (forexOrders t) \<longrightarrow>
           o_status (forexOrders (fst (snd (processForexPurchase W (oid, ord) (t, w)))) ! oid) =
             Order_FAILED)) \<and>
     (c \<noteq> NOT_FOUND \<and> c \<noteq> INVALID_ARGUMENT \<longrightarrow>
        snd (processForexPurchase W (oid, ord) (t, w)) =
          (t\<lparr>forexTxns := forexTxns t @
                [(initiatedForexTxn (oid, ord))
                   \<lparr>t_status := Txn_FAILED, t_errorMessage := Some msg,
                    t_errorStatus := Some c\<rparr>],
             retryQueue := retryQueue t @
                [\<lparr>ev_orderId = oid, ev_transactionId = length (forexTxns t),
                  ev_errMessage = msg, ev_errCode = c\<rparr>]\<rparr>, w'))"
proof (intro impI conjI)
  assume call: "W w (buyForexRequest (oid, ord)) = (Inl (c, msg), w')"
    and perm: "c = NOT_FOUND \<or> c = INVALID_ARGUMENT"
  note p = processForexPurchase_permanent[where W = W and w = w and forexOrder = "(oid, ord)"
      and t = t, OF call perm]
  show "snd (processForexPurchase W (oid, ord) (t, w)) =
          (t\<lparr>forexOrders := updateById oid
                (\<lambda>x. x\<lparr>o_status := Order_FAILED, o_errorMessage := Some msg,
                         o_errorStatus := Some c\<rparr>) (forexOrders t),
             forexTxns := forexTxns t @
                [(initiatedForexTxn (oid, ord))
                   \<lparr>t_status := Txn_FAILED, t_errorMessage := Some msg,
                    t_errorStatus := Some c\<rparr>],
             notifications := notifications t @
                [createTransactionEmail
                   (EmailFailure (o_userEmail ord) (o_targetCurrency ord) oid
                      (length (forexTxns t)) (o_baseCurrency ord))]\<rparr>, w')"
    using p by simp
  assume "oid < length (forexOrders t)"
  then show "o_status (forexOrders (fst (snd (processForexPurchase W (oid, ord) (t, w)))) ! oid) =
      Order_FAILED"
    using p by (simp add: updateById_nth)
next
  assume call: "W w (buyForexRequest (oid, ord)) = (Inl (c, msg), w')"
    and trans: "c \<noteq> NOT_FOUND \<and> c \<noteq> INVALID_ARGUMENT"
  then show "snd (processForexPurchase W (oid, ord) (t, w)) =
          (t\<lparr>forexTxns := forexTxns t @
                [(initiatedForexTxn (oid, ord))
                   \<lparr>t_status := Txn_FAILED, t_errorMessage := Some msg,
                    t_errorStatus := Some c\<rparr>],
             retryQueue := retryQueue t @
                [\<lparr>ev_orderId = oid, ev_transactionId = length (forexTxns t),
                  ev_errMessage = msg, ev_errCode = c\<rparr>]\<rparr>, w')"
    using processForexPurchase_transient[where W = W and w = w and forexOrder = "(oid, ord)"
        and t = t and c = c and msg = msg and w' = w'] by simp
qed

theorem failure_classification_witness:
  "failing_client INVALID_ARGUMENT () (buyForexRequest (0, alice_order)) =
     (Inl (INVALID_ARGUMENT, ''wallet call failed''), ()) \<and>
   (0::nat) < length (forexOrders alice_pending) \<and>
   o_status (forexOrders (fst (snd (processForexPurchase (failing_client INVALID_ARGUMENT)
      (0, alice_order) (alice_pending, ())))) ! 0) = Order_FAILED \<and>
   retryQueue (fst (snd (processForexPurchase (failing_client INVALID_ARGUMENT)
      (0, alice_order) (alice_pending, ())))) = [] \<and>
   failing_client ABORTED () (buyForexRequest (0, alice_order)) =
     (Inl (ABORTED, ''wallet call failed''), ()) \<and>
   forexOrders (fst (snd (processForexPurchase (failing_client ABORTED)
      (0, alice_order) (alice_pending, ())))) = [alice_order] \<and>
   retryQueue (fst (snd (processForexPurchase (failing_client ABORTED)
      (0, alice_order) (alice_pending, ())))) =
     [\<lparr>ev_orderId = 0, ev_transactionId = 0, ev_errMessage = ''wallet call failed'',
       ev_errCode = ABORTED\<rparr>]"
proof -
  have c1: "failing_client INVALID_ARGUMENT () (buyForexRequest (0, alice_order)) =
     (Inl (INVALID_ARGUMENT, ''wallet call failed''), ())"
    by (simp add: failing_client_def)
  have c2: "failing_client ABORTED () (buyForexRequest (0, alice_order)) =
     (Inl (ABORTED, ''wallet call failed''), ())"
    by (simp add: failing_client_def)
  have l: "(0::nat) < length (forexOrders alice_pending)"
    by (simp add: alice_pending_def)
  have q: "retryQueue alice_pending = []" "forexOrders alice_pending = [alice_order]"
    "forexTxns alice_pending = []"
    by (simp_all add: alice_pending_def empty_transaction_db_def)
  from failure_classification[where W = "failing_client INVALID_ARGUMENT" and w = "()"
      and oid = 0 and ord = alice_order and c = INVALID_ARGUMENT
      and msg = "''wallet call failed''" and w' = "()" and t = alice_pending] c1 l
  have p: "o_status (forexOrders (fst (snd (processForexPurchase (failing_client INVALID_ARGUMENT)
      (0, alice_order) (alice_pending, ())))) ! 0) = Order_FAILED"
    "retryQueue (fst (snd (processForexPurchase (failing_client INVALID_ARGUMENT)
      (0, alice_order) (alice_pending, ())))) = []"
    by (simp_all add: q updateById_def del: createTransactionEmail.simps)
  from failure_classification[where W = "failing_client ABORTED" and w = "()"
      and oid = 0 and ord = alice_order and c = ABORTED
      and msg = "''wallet call failed''" and w' = "()" and t = alice_pending] c2
  have s: "forexOrders (fst (snd (processForexPurchase (failing_client ABORTED)
      (0, alice_order) (alice_pending, ())))) = [alice_order]"
    "retryQueue (fst (snd (processForexPurchase (failing_client ABORTED)
      (0, alice_order) (alice_pending, ())))) =
     [\<lparr>ev_orderId = 0, ev_transactionId = 0, ev_errMessage = ''wallet call failed'',
       ev_errCode = ABORTED\<rparr>]"
    by (simp_all add: q updateById_def del: createTransactionEmail.simps)
  show ?thesis using c1 c2 l p s by simp
qed

text \<open>The claim as the specification states it fails for \<open>FAILED_PRECONDITION\<close>: the
  order is not marked FAILED, and a retry job is enqueued.\<close>

theorem failed_precondition_is_retried_counterexample:
  "map o_status (forexOrders (fst (snd (processForexPurchase (failing_client FAILED_PRECONDITION)
      (0, alice_order) (alice_pending, ()))))) = [Order_PENDING] \<and>
   retryQueue (fst (snd (processForexPurchase (failing_client FAILED_PRECONDITION)
      (0, alice_order) (alice_pending, ())))) =
     [\<lparr>ev_orderId = 0, ev_transactionId = 0, ev_errMessage = ''wallet call failed'',
       ev_errCode = FAILED_PRECONDITION\<rparr>] \<and>
   notifications (fst (snd (processForexPurchase (failing_client FAILED_PRECONDITION)
      (0, alice_order) (alice_pending, ())))) = []"
  by code_simp

subsection \<open>ForexTransaction rows of an order\<close>

text \<open>
  C8, as amended: an order has one ForexTransaction per execution, not one in all. Every
  execution of an order by \<open>processForexPurchase\<close> inserts exactly one new row for that
  order, created INITIATED from the order and then updated in place with the outcome of
  this execution (it ends COMPLETED or FAILED); the rows that were there are left as they
  were. So the number of rows of the order grows by one with each execution.
\<close>

theorem one_forex_transaction_per_execution:
  "length (forexTxns (fst (snd (processForexPurchase W (oid, ord) (t, w))))) =
     Suc (length (forexTxns t)) \<and>
   take (length (forexTxns t)) (forexTxns (fst (snd (processForexPurchase W (oid, ord) (t, w))))) =
     forexTxns t \<and>
   (\<exists>xr ta st ec em.
      last (forexTxns (fst (snd (processForexPurchase W (oid, ord) (t, w))))) =
        (initiatedForexTxn (oid, ord))
          \<lparr>t_exchangeRate := xr, t_targetAmount := ta, t_status := st, t_errorStatus := ec,
           t_errorMessage := em\<rparr> \<and>
      st \<noteq> Txn_INITIATED) \<and>
   t_orderId (last (forexTxns (fst (snd (processForexPurchase W (oid, ord) (t, w)))))) = oid \<and>
   length (filter (\<lambda>x. t_orderId x = oid)
             (forexTxns (fst (snd (processForexPurchase W (oid, ord) (t, w)))))) =
     Suc (length (filter (\<lambda>x. t_orderId x = oid) (forexTxns t)))"
proof -
  let ?row = "initiatedForexTxn (oid, ord)"
  have shape: "\<exists>xr ta st ec em.
      forexTxns (fst (snd (processForexPurchase W (oid, ord) (t, w)))) =
        forexTxns t @
          [?row\<lparr>t_exchangeRate := xr, t_targetAmount := ta, t_status := st, t_errorStatus := ec,
                 t_errorMessage := em\<rparr>] \<and>
      st \<noteq> Txn_INITIATED"
  proof (cases "W w (buyForexRequest (oid, ord))")
    case (Pair r w')
    show ?thesis
    proof (cases r)
      case (Inl err)
      obtain c msg where err: "err = (c, msg)" by (cases err)
      show ?thesis
      proof (cases "c = NOT_FOUND \<or> c = INVALID_ARGUMENT")
        case True
        have "forexTxns (fst (snd (processForexPurchase W (oid, ord) (t, w)))) =
            forexTxns t @
              [?row\<lparr>t_exchangeRate := None, t_targetAmount := None, t_status := Txn_FAILED,
                     t_errorStatus := Some c, t_errorMessage := Some msg\<rparr>]"
          using processForexPurchase_permanent[where W = W and w = w
              and forexOrder = "(oid, ord)" and t = t and c = c and msg = msg and w' = w']
            Pair Inl err True
          by (simp add: initiatedForexTxn_def)
        then show ?thesis by blast
      next
        case False
        have "forexTxns (fst (snd (processForexPurchase W (oid, ord) (t, w)))) =
            forexTxns t @
              [?row\<lparr>t_exchangeRate := None, t_targetAmount := None, t_status := Txn_FAILED,
                     t_errorStatus := Some c, t_errorMessage := Some msg\<rparr>]"
          using processForexPurchase_transient[where W = W and w = w
              and forexOrder = "(oid, ord)" and t = t and c = c and msg = msg and w' = w']
            Pair Inl err False
          by (simp add: initiatedForexTxn_def)
        then show ?thesis by blast
      qed
    next
      case (Inr res)
      have "forexTxns (fst (snd (processForexPurchase W (oid, ord) (t, w)))) =
          forexTxns t @
            [?row\<lparr>t_exchangeRate := Some (br_exchangeRate res),
                   t_targetAmount := Some (br_targetAmount res), t_status := Txn_COMPLETED,
                   t_errorStatus := None, t_errorMessage := None\<rparr>]"
        using processForexPurchase_success[where W = W and w = w
            and forexOrder = "(oid, ord)" and t = t and res = res and w' = w'] Pair Inr
        by (simp add: initiatedForexTxn_def)
      then show ?thesis by blast
    qed
  qed
  then obtain xr ta st ec em where
    eq: "forexTxns (fst (snd (processForexPurchase W (oid, ord) (t, w)))) =
        forexTxns t @
          [?row\<lparr>t_exchangeRate := xr, t_targetAmount := ta, t_status := st, t_errorStatus := ec,
                 t_errorMessage := em\<rparr>]"
    and st: "st \<noteq> Txn_INITIATED"
    by blast
  have oid: "t_orderId ?row = oid" by (simp add: initiatedForexTxn_def)
  have ex: "\<exists>xr' ta' st' ec' em'.
      ?row\<lparr>t_exchangeRate := xr, t_targetAmount := ta, t_status := st, t_errorStatus := ec,
            t_errorMessage := em\<rparr> =
      ?row\<lparr>t_exchangeRate := xr', t_targetAmount := ta', t_status := st', t_errorStatus := ec',
            t_errorMessage := em'\<rparr> \<and> st' \<noteq> Txn_INITIATED"
    using st by blast
  show ?thesis
    unfolding eq using ex oid by simp
qed

text \<open>The claim as the specification states it fails: after one transient failure and
  its retry, the order with key 0 has two ForexTransaction rows.\<close>

theorem retry_inserts_second_transaction_counterexample:
  "map t_orderId (forexTxns (fst (worker (failing_client UNAVAILABLE) None 1
      (snd (transactions_buyForex (failing_client UNAVAILABLE) alice_options
         (empty_transaction_db, ())))))) = [0, 0] \<and>
   length (forexOrders (fst (worker (failing_client UNAVAILABLE) None 1
      (snd (transactions_buyForex (failing_client UNAVAILABLE) alice_options
         (empty_transaction_db, ())))))) = 1"
  by code_simp
subsection \<open>The wallet calls of the example\<close>

lemma both_wallets:
  "findOneWhere pick (\<lambda>e. w_currency (snd e) = ''USD'') (wallets (alice_after u e n)) =
     Some (0, \<lparr>w_userId = ''alice'', w_currency = ''USD'', w_balance = u\<rparr>)"
  "findOneWhere pick (\<lambda>e. w_currency (snd e) = ''EUR'') (wallets (alice_after u e n)) =
     Some (1, \<lparr>w_userId = ''alice'', w_currency = ''EUR'', w_balance = e\<rparr>)"
  by (simp_all add: findOneWhere_def alice_after_def)

lemma alice_first_call:
  "wallet_client_usd_eur pick (alice_usd 1000) (buy_usd_eur ''alice'' 100) =
     (Inr \<lparr>br_message = ''success'', br_success = True, br_exchangeRate = 11 / 10,
           br_targetAmount = 110\<rparr>, alice_after 900 110 1)"
  by (simp add: wallet_client_usd_eur_def wallet_buyForex_def findBaseWalletOrFail_def
      only_usd_wallet buy_usd_eur_def validateSufficientFund_def fetchExchangeRate_def
      usd_eur_def transaction_def buyForex_body_def getOrCreateTargetWalletInTxn_def Let_def
      dec_examples saveWallet_def insertWallet_def insertWalletTxn_def)
    (simp add: alice_usd_def alice_after_def)

lemma alice_second_call:
  "wallet_client_usd_eur pick (alice_after 900 110 1) (buy_usd_eur ''alice'' 100) =
     (Inr \<lparr>br_message = ''success'', br_success = True, br_exchangeRate = 11 / 10,
           br_targetAmount = 110\<rparr>, alice_after 800 220 2)"
  by (simp add: wallet_client_usd_eur_def wallet_buyForex_def findBaseWalletOrFail_def
      both_wallets buy_usd_eur_def validateSufficientFund_def fetchExchangeRate_def
      usd_eur_def transaction_def buyForex_body_def getOrCreateTargetWalletInTxn_def Let_def
      dec_examples saveWallet_def insertWallet_def insertWalletTxn_def)
    (simp add: alice_after_def numeral_2_eq_2)

lemma alice_request:
  "o_userId ord = ''alice'' \<Longrightarrow> o_baseCurrency ord = ''USD'' \<Longrightarrow>
   o_targetCurrency ord = ''EUR'' \<Longrightarrow> o_amount ord = 100 \<Longrightarrow>
   buyForexRequest (oid, ord) = buy_usd_eur ''alice'' 100"
  by (simp add: buyForexRequest_def buy_usd_eur_def)

subsection \<open>Amounts of a successful purchase\<close>








subsection \<open>Exhaustion of the retries\<close>

lemma worker_empty_queue: "retryQueue (fst s) = [] \<Longrightarrow> worker W cfg fuel s = s"
  by (cases fuel) simp_all

lemma handleRetry_exhausted:
  assumes "ev_orderId job < length (forexOrders t)"
    and "ev_transactionId job < length (forexTxns t)"
    and "maxForexRetries cfg \<le> o_retryAttempts (forexOrders t ! ev_orderId job) + 1"
  shows "handleRetry W cfg job (t, w) =
     (t\<lparr>forexOrders := (forexOrders t)[ev_orderId job :=
           (forexOrders t ! ev_orderId job)
             \<lparr>o_retryAttempts := o_retryAttempts (forexOrders t ! ev_orderId job) + 1,
              o_status := Order_FAILED, o_errorMessage := Some (ev_errMessage job),
              o_errorStatus := Some (ev_errCode job)\<rparr>],
        forexTxns := (forexTxns t)[ev_transactionId job :=
           (forexTxns t ! ev_transactionId job)
             \<lparr>t_status := Txn_FAILED, t_errorMessage := Some (ev_errMessage job),
              t_errorStatus := Some (ev_errCode job)\<rparr>],
        notifications := notifications t @
           [createTransactionEmail
              (EmailFailure (o_userEmail (forexOrders t ! ev_orderId job))
                 (o_targetCurrency (forexOrders t ! ev_orderId job)) (ev_orderId job)
                 (ev_transactionId job) (o_baseCurrency (forexOrders t ! ev_orderId job)))]\<rparr>,
      w)"
  using assms
  by (simp add: handleRetry_def Let_def updateById_def findOneById_def failOrder_def
      notifyUser_def del: createTransactionEmail.simps)

lemma handleRetry_retries:
  assumes "ev_orderId job < length (forexOrders t)"
    and "ev_transactionId job < length (forexTxns t)"
    and "o_retryAttempts (forexOrders t ! ev_orderId job) + 1 < maxForexRetries cfg"
  shows "handleRetry W cfg job (t, w) =
     snd (processForexPurchase W
       (ev_orderId job,
        (forexOrders t ! ev_orderId job)
          \<lparr>o_retryAttempts := o_retryAttempts (forexOrders t ! ev_orderId job) + 1\<rparr>)
       (t\<lparr>forexOrders := (forexOrders t)[ev_orderId job :=
           (forexOrders t ! ev_orderId job)
             \<lparr>o_retryAttempts := o_retryAttempts (forexOrders t ! ev_orderId job) + 1\<rparr>]\<rparr>, w))"
  using assms
  by (simp add: handleRetry_def Let_def updateById_def findOneById_def case_prod_beta)

lemma worker_exhausts:
  assumes tr: "\<forall>w q. \<exists>c msg w'. W w q = (Inl (c, msg), w') \<and> c \<noteq> NOT_FOUND \<and> c \<noteq> INVALID_ARGUMENT"
    and m: "maxForexRetries cfg = m"
  shows "retryQueue t = [job] \<Longrightarrow> ev_orderId job = oid \<Longrightarrow>
    ev_transactionId job < length (forexTxns t) \<Longrightarrow> oid < length (forexOrders t) \<Longrightarrow>
    o_retryAttempts (forexOrders t ! oid) = m - 1 - int d \<Longrightarrow> Suc d \<le> fuel \<Longrightarrow>
    retryQueue (fst (worker W cfg fuel (t, w))) = [] \<and>
    length (forexOrders (fst (worker W cfg fuel (t, w)))) = length (forexOrders t) \<and>
    o_status (forexOrders (fst (worker W cfg fuel (t, w))) ! oid) = Order_FAILED \<and>
    o_retryAttempts (forexOrders (fst (worker W cfg fuel (t, w))) ! oid) = m \<and>
    notifications (fst (worker W cfg fuel (t, w))) =
      notifications t @
        [\<lparr>em_html = [],
          em_text = ''Your purchase of '' @ o_targetCurrency (forexOrders t ! oid) @
                    '', with order id: '' @ show_nat oid @ '' failed'',
          em_subject = ''Forex purchase failed'',
          em_to = o_userEmail (forexOrders t ! oid)\<rparr>] \<and>
    length (forexTxns (fst (worker W cfg fuel (t, w)))) = length (forexTxns t) + d"
proof (induction d arbitrary: t w job fuel)
  case 0
  then obtain f where fuel: "fuel = Suc f" by (cases fuel) simp_all
  let ?t0 = "t\<lparr>retryQueue := []\<rparr>"
  have pre: "ev_orderId job < length (forexOrders ?t0)"
    "ev_transactionId job < length (forexTxns ?t0)"
    "maxForexRetries cfg \<le> o_retryAttempts (forexOrders ?t0 ! ev_orderId job) + 1"
    using 0 m by simp_all
  note h = handleRetry_exhausted[where W = W and w = w, OF pre]
  have step: "worker W cfg fuel (t, w) = handleRetry W cfg job (?t0, w)"
    unfolding fuel using 0(1) by (simp add: h worker_empty_queue del: createTransactionEmail.simps)
  show ?case
    unfolding step h using 0 by simp
next
  case (Suc d)
  then obtain f where fuel: "fuel = Suc f" and f: "Suc d \<le> f" by (cases fuel) simp_all
  let ?t0 = "t\<lparr>retryQueue := []\<rparr>"
  let ?row = "(forexOrders t ! oid)\<lparr>o_retryAttempts := o_retryAttempts (forexOrders t ! oid) + 1\<rparr>"
  let ?t1 = "?t0\<lparr>forexOrders := (forexOrders t)[oid := ?row]\<rparr>"
  have pre: "ev_orderId job < length (forexOrders ?t0)"
    "ev_transactionId job < length (forexTxns ?t0)"
    "o_retryAttempts (forexOrders ?t0 ! ev_orderId job) + 1 < maxForexRetries cfg"
    using Suc.prems m by simp_all
  have h: "handleRetry W cfg job (?t0, w) = snd (processForexPurchase W (oid, ?row) (?t1, w))"
    using handleRetry_retries[where W = W and w = w, OF pre] Suc.prems(2) by simp
  from tr obtain c msg w' where
    call: "W w (buyForexRequest (oid, ?row)) = (Inl (c, msg), w')"
    and c: "c \<noteq> NOT_FOUND" "c \<noteq> INVALID_ARGUMENT"
    by blast
  let ?job = "\<lparr>ev_orderId = oid, ev_transactionId = length (forexTxns t), ev_errMessage = msg,
      ev_errCode = c\<rparr>"
  let ?t2 = "?t1\<lparr>forexTxns := forexTxns t @
      [(initiatedForexTxn (oid, ?row))
         \<lparr>t_status := Txn_FAILED, t_errorMessage := Some msg, t_errorStatus := Some c\<rparr>],
      retryQueue := [?job]\<rparr>"
  have p: "snd (processForexPurchase W (oid, ?row) (?t1, w)) = (?t2, w')"
    using processForexPurchase_transient[where W = W and w = w and forexOrder = "(oid, ?row)"
        and t = ?t1, OF call c]
    by simp
  have step: "worker W cfg fuel (t, w) = worker W cfg f (?t2, w')"
    unfolding fuel using Suc.prems(1) by (simp add: h p)
  have ih: "retryQueue (fst (worker W cfg f (?t2, w'))) = [] \<and>
    length (forexOrders (fst (worker W cfg f (?t2, w')))) = length (forexOrders ?t2) \<and>
    o_status (forexOrders (fst (worker W cfg f (?t2, w'))) ! oid) = Order_FAILED \<and>
    o_retryAttempts (forexOrders (fst (worker W cfg f (?t2, w'))) ! oid) = m \<and>
    notifications (fst (worker W cfg f (?t2, w'))) =
      notifications ?t2 @
        [\<lparr>em_html = [],
          em_text = ''Your purchase of '' @ o_targetCurrency (forexOrders ?t2 ! oid) @
                    '', with order id: '' @ show_nat oid @ '' failed'',
          em_subject = ''Forex purchase failed'',
          em_to = o_userEmail (forexOrders ?t2 ! oid)\<rparr>] \<and>
    length (forexTxns (fst (worker W cfg f (?t2, w')))) = length (forexTxns ?t2) + d"
  proof (rule Suc.IH)
    show "retryQueue ?t2 = [?job]" by simp
    show "ev_orderId ?job = oid" by simp
    show "ev_transactionId ?job < length (forexTxns ?t2)" by simp
    show "oid < length (forexOrders ?t2)" using Suc.prems(4) by simp
    show "o_retryAttempts (forexOrders ?t2 ! oid) = m - 1 - int d"
      using Suc.prems(4,5) by simp
    show "Suc d \<le> f" by (rule f)
  qed
  show ?case
    unfolding step using ih Suc.prems(4) by simp
qed
text \<open>
  C6: the wallet call of every execution fails with a transient code, the maximum
  \<open>maxForexRetries config\<close> (3 when not configured) is positive and the queue is empty
  when the order is placed. Then a worker that is given enough fuel (at least the maximum)
  empties the queue, and at the end the order is FAILED, its \<open>retryAttempts\<close> equals the
  maximum, exactly one notification has been emitted for it, the failure notification,
  and the order has been executed as many times as the maximum: the first execution and
  the retries before the last job. A job that finds the attempts of its order at the
  maximum after the increment marks the order FAILED without executing it: no
  ForexTransaction row is added and the wallet service is not called.
\<close>

theorem retry_exhaustion:
  "((\<forall>w q. \<exists>c msg w'. (W :: 'w wallet_client) w q = (Inl (c, msg), w') \<and>
         c \<noteq> NOT_FOUND \<and> c \<noteq> INVALID_ARGUMENT) \<and>
    0 < maxForexRetries config \<and> retryQueue t = [] \<and> nat (maxForexRetries config) \<le> fuel \<longrightarrow>
      retryQueue (fst (worker W config fuel (snd (transactions_buyForex W opts (t, w))))) = [] \<and>
      length (forexOrders (fst (worker W config fuel (snd (transactions_buyForex W opts (t, w)))))) =
        Suc (length (forexOrders t)) \<and>
      o_status (forexOrders (fst (worker W config fuel (snd (transactions_buyForex W opts (t, w))))) !
          length (forexOrders t)) = Order_FAILED \<and>
      o_retryAttempts
        (forexOrders (fst (worker W config fuel (snd (transactions_buyForex W opts (t, w))))) !
          length (forexOrders t)) = maxForexRetries config \<and>
      notifications (fst (worker W config fuel (snd (transactions_buyForex W opts (t, w))))) =
        notifications t @
          [\<lparr>em_html = [],
            em_text = ''Your purchase of '' @ op_targetCurrency opts @
                      '', with order id: '' @ show_nat (length (forexOrders t)) @ '' failed'',
            em_subject = ''Forex purchase failed'', em_to = op_userEmail opts\<rparr>] \<and>
      length (forexTxns (fst (worker W config fuel (snd (transactions_buyForex W opts (t, w)))))) =
        length (forexTxns t) + nat (maxForexRetries config)) \<and>
   (\<forall>cfg job t0 w0.
      ev_orderId job < length (forexOrders t0) \<and> ev_transactionId job < length (forexTxns t0) \<and>
      maxForexRetries cfg \<le> o_retryAttempts (forexOrders t0 ! ev_orderId job) + 1 \<longrightarrow>
        snd (handleRetry W cfg job (t0, w0)) = w0 \<and>
        length (forexTxns (fst (handleRetry W cfg job (t0, w0)))) = length (forexTxns t0) \<and>
        length (notifications (fst (handleRetry W cfg job (t0, w0)))) =
          Suc (length (notifications t0)) \<and>
        o_status (forexOrders (fst (handleRetry W cfg job (t0, w0))) ! ev_orderId job) =
          Order_FAILED)"
proof (intro conjI impI allI)
  fix cfg and job :: retry_order_event and t0 :: transaction_db and w0 :: 'w
  assume a: "ev_orderId job < length (forexOrders t0) \<and>
      ev_transactionId job < length (forexTxns t0) \<and>
      maxForexRetries cfg \<le> o_retryAttempts (forexOrders t0 ! ev_orderId job) + 1"
  then have pre: "ev_orderId job < length (forexOrders t0)"
    "ev_transactionId job < length (forexTxns t0)"
    "maxForexRetries cfg \<le> o_retryAttempts (forexOrders t0 ! ev_orderId job) + 1"
    by blast+
  note h = handleRetry_exhausted[where W = W and w = w0, OF pre]
  show "snd (handleRetry W cfg job (t0, w0)) = w0"
    unfolding h by simp
  show "length (forexTxns (fst (handleRetry W cfg job (t0, w0)))) = length (forexTxns t0)"
    unfolding h by simp
  show "length (notifications (fst (handleRetry W cfg job (t0, w0)))) =
      Suc (length (notifications t0))"
    unfolding h by simp
  show "o_status (forexOrders (fst (handleRetry W cfg job (t0, w0))) ! ev_orderId job) =
      Order_FAILED"
    unfolding h using pre(1) by simp
next
  assume a: "(\<forall>w q. \<exists>c msg w'. W w q = (Inl (c, msg), w') \<and> c \<noteq> NOT_FOUND \<and> c \<noteq> INVALID_ARGUMENT) \<and>
    0 < maxForexRetries config \<and> retryQueue t = [] \<and> nat (maxForexRetries config) \<le> fuel"
  then have tr: "\<forall>w q. \<exists>c msg w'. W w q = (Inl (c, msg), w') \<and> c \<noteq> NOT_FOUND \<and> c \<noteq> INVALID_ARGUMENT"
    and pos: "0 < maxForexRetries config" and q: "retryQueue t = []"
    and fuel: "nat (maxForexRetries config) \<le> fuel"
    by blast+
  let ?oid = "length (forexOrders t)"
  let ?row = "\<lparr>o_userId = op_userId opts, o_userEmail = op_userEmail opts,
      o_type = BUY, o_baseCurrency = op_baseCurrency opts,
      o_targetCurrency = op_targetCurrency opts, o_amount = op_amount opts,
      o_status = Order_PENDING, o_retryAttempts = 0, o_errorStatus = None,
      o_errorMessage = None\<rparr>"
  let ?t0 = "t\<lparr>forexOrders := forexOrders t @ [?row]\<rparr>"
  from tr obtain c msg w' where
    call: "W w (buyForexRequest (?oid, ?row)) = (Inl (c, msg), w')"
    and c: "c \<noteq> NOT_FOUND" "c \<noteq> INVALID_ARGUMENT"
    by blast
  let ?job = "\<lparr>ev_orderId = ?oid, ev_transactionId = length (forexTxns t), ev_errMessage = msg,
      ev_errCode = c\<rparr>"
  let ?t1 = "?t0\<lparr>forexTxns := forexTxns t @
      [(initiatedForexTxn (?oid, ?row))
         \<lparr>t_status := Txn_FAILED, t_errorMessage := Some msg, t_errorStatus := Some c\<rparr>],
      retryQueue := [?job]\<rparr>"
  have first: "snd (transactions_buyForex W opts (t, w)) = (?t1, w')"
    using processForexPurchase_transient[where W = W and w = w and forexOrder = "(?oid, ?row)"
        and t = ?t0, OF call c] q
    by (simp add: transactions_buyForex_def Let_def)
  let ?d = "nat (maxForexRetries config - 1)"
  have ex: "retryQueue (fst (worker W config fuel (?t1, w'))) = [] \<and>
    length (forexOrders (fst (worker W config fuel (?t1, w')))) = length (forexOrders ?t1) \<and>
    o_status (forexOrders (fst (worker W config fuel (?t1, w'))) ! ?oid) = Order_FAILED \<and>
    o_retryAttempts (forexOrders (fst (worker W config fuel (?t1, w'))) ! ?oid) =
      maxForexRetries config \<and>
    notifications (fst (worker W config fuel (?t1, w'))) =
      notifications ?t1 @
        [\<lparr>em_html = [],
          em_text = ''Your purchase of '' @ o_targetCurrency (forexOrders ?t1 ! ?oid) @
                    '', with order id: '' @ show_nat ?oid @ '' failed'',
          em_subject = ''Forex purchase failed'',
          em_to = o_userEmail (forexOrders ?t1 ! ?oid)\<rparr>] \<and>
    length (forexTxns (fst (worker W config fuel (?t1, w')))) = length (forexTxns ?t1) + ?d"
  proof (rule worker_exhausts[OF tr refl])
    show "retryQueue ?t1 = [?job]" by simp
    show "ev_orderId ?job = ?oid" by simp
    show "ev_transactionId ?job < length (forexTxns ?t1)" by simp
    show "?oid < length (forexOrders ?t1)" by simp
    show "o_retryAttempts (forexOrders ?t1 ! ?oid) = maxForexRetries config - 1 - int ?d"
      using pos by simp
    show "Suc ?d \<le> fuel" using pos fuel by simp
  qed
  have d: "Suc (length (forexTxns t) + ?d) = length (forexTxns t) + nat (maxForexRetries config)"
    using pos by simp
  show "retryQueue (fst (worker W config fuel (snd (transactions_buyForex W opts (t, w))))) = []"
    unfolding first using ex by blast
  show "length (forexOrders (fst (worker W config fuel (snd (transactions_buyForex W opts (t, w)))))) =
        Suc (length (forexOrders t))"
    unfolding first using ex by simp
  show "o_status (forexOrders (fst (worker W config fuel (snd (transactions_buyForex W opts (t, w))))) !
          length (forexOrders t)) = Order_FAILED"
    unfolding first using ex by blast
  show "o_retryAttempts
        (forexOrders (fst (worker W config fuel (snd (transactions_buyForex W opts (t, w))))) !
          length (forexOrders t)) = maxForexRetries config"
    unfolding first using ex by blast
  show "notifications (fst (worker W config fuel (snd (transactions_buyForex W opts (t, w))))) =
        notifications t @
          [\<lparr>em_html = [],
            em_text = ''Your purchase of '' @ op_targetCurrency opts @
                      '', with order id: '' @ show_nat (length (forexOrders t)) @ '' failed'',
            em_subject = ''Forex purchase failed'', em_to = op_userEmail opts\<rparr>]"
    unfolding first using ex by simp
  show "length (forexTxns (fst (worker W config fuel (snd (transactions_buyForex W opts (t, w)))))) =
        length (forexTxns t) + nat (maxForexRetries config)"
    unfolding first using ex d by simp
qed

theorem retry_exhaustion_witness:
  "(\<forall>w q. \<exists>c msg w'. failing_client UNAVAILABLE w q = (Inl (c, msg), w') \<and>
       c \<noteq> NOT_FOUND \<and> c \<noteq> INVALID_ARGUMENT) \<and>
   0 < maxForexRetries None \<and> retryQueue empty_transaction_db = [] \<and>
   nat (maxForexRetries None) \<le> 3 \<and> maxForexRetries None = 3 \<and>
   retryQueue (fst (worker (failing_client UNAVAILABLE) None 3
      (snd (transactions_buyForex (failing_client UNAVAILABLE) alice_options
         (empty_transaction_db, ()))))) = [] \<and>
   o_status (forexOrders (fst (worker (failing_client UNAVAILABLE) None 3
      (snd (transactions_buyForex (failing_client UNAVAILABLE) alice_options
         (empty_transaction_db, ()))))) ! 0) = Order_FAILED \<and>
   o_retryAttempts (forexOrders (fst (worker (failing_client UNAVAILABLE) None 3
      (snd (transactions_buyForex (failing_client UNAVAILABLE) alice_options
         (empty_transaction_db, ()))))) ! 0) = 3 \<and>
   length (notifications (fst (worker (failing_client UNAVAILABLE) None 3
      (snd (transactions_buyForex (failing_client UNAVAILABLE) alice_options
         (empty_transaction_db, ())))))) = 1 \<and>
   length (forexTxns (fst (worker (failing_client UNAVAILABLE) None 3
      (snd (transactions_buyForex (failing_client UNAVAILABLE) alice_options
         (empty_transaction_db, ())))))) = 3 \<and>
   ev_orderId alice_job < length (forexOrders alice_initiated) \<and>
   ev_transactionId alice_job < length (forexTxns alice_initiated) \<and>
   maxForexRetries (Some 1) \<le>
     o_retryAttempts (forexOrders alice_initiated ! ev_orderId alice_job) + 1 \<and>
   length (forexTxns (fst (handleRetry (failing_client UNAVAILABLE) (Some 1) alice_job
     (alice_initiated, ())))) = length (forexTxns alice_initiated) \<and>
   o_status (forexOrders (fst (handleRetry (failing_client UNAVAILABLE) (Some 1) alice_job
     (alice_initiated, ()))) ! ev_orderId alice_job) = Order_FAILED"
proof -
  let ?W = "failing_client UNAVAILABLE"
  have tr: "\<forall>w q. \<exists>c msg w'. ?W w q = (Inl (c, msg), w') \<and> c \<noteq> NOT_FOUND \<and> c \<noteq> INVALID_ARGUMENT"
    by (simp add: failing_client_def)
  have m: "maxForexRetries None = 3" by (simp add: maxForexRetries_def)
  have e: "retryQueue empty_transaction_db = []" "forexOrders empty_transaction_db = []"
    "forexTxns empty_transaction_db = []" "notifications empty_transaction_db = []"
    by (simp_all add: empty_transaction_db_def)
  have pre: "ev_orderId alice_job < length (forexOrders alice_initiated)"
    "ev_transactionId alice_job < length (forexTxns alice_initiated)"
    "maxForexRetries (Some 1) \<le>
       o_retryAttempts (forexOrders alice_initiated ! ev_orderId alice_job) + 1"
    by (simp_all add: alice_job_def alice_initiated_def alice_pending_def alice_order_def
        maxForexRetries_def)
  note r = retry_exhaustion[where W = ?W and config = None and t = empty_transaction_db
      and fuel = 3 and opts = alice_options and w = "()"]
  from r tr m e have A:
    "retryQueue (fst (worker ?W None 3
      (snd (transactions_buyForex ?W alice_options (empty_transaction_db, ()))))) = []"
    "o_status (forexOrders (fst (worker ?W None 3
      (snd (transactions_buyForex ?W alice_options (empty_transaction_db, ()))))) ! 0) =
      Order_FAILED"
    "o_retryAttempts (forexOrders (fst (worker ?W None 3
      (snd (transactions_buyForex ?W alice_options (empty_transaction_db, ()))))) ! 0) = 3"
    "length (notifications (fst (worker ?W None 3
      (snd (transactions_buyForex ?W alice_options (empty_transaction_db, ())))))) = 1"
    "length (forexTxns (fst (worker ?W None 3
      (snd (transactions_buyForex ?W alice_options (empty_transaction_db, ())))))) = 3"
    by simp_all
  from r pre have B:
    "length (forexTxns (fst (handleRetry ?W (Some 1) alice_job (alice_initiated, ())))) =
       length (forexTxns alice_initiated)"
    "o_status (forexOrders (fst (handleRetry ?W (Some 1) alice_job (alice_initiated, ()))) !
       ev_orderId alice_job) = Order_FAILED"
    by blast+
  show ?thesis
    using tr m e(1) pre A B by simp
qed
subsection \<open>Execution of an order that is already terminal\<close>

lemma alice_options_order:
  "\<lparr>o_userId = op_userId alice_options, o_userEmail = op_userEmail alice_options,
    o_type = BUY, o_baseCurrency = op_baseCurrency alice_options,
    o_targetCurrency = op_targetCurrency alice_options, o_amount = op_amount alice_options,
    o_status = Order_PENDING, o_retryAttempts = 0, o_errorStatus = None,
    o_errorMessage = None\<rparr> = alice_order"
  by (simp add: alice_options_def alice_order_def)

lemma flaky_client_up:
  "wallet_client_usd_eur pick db q = (Inr res, db') \<Longrightarrow>
   flaky_client pick (False, db) q = (Inr res, (False, db'))"
  by (simp add: flaky_client_def wallet_client_usd_eur_def)

lemma alice_failed_once:
  "snd (transactions_buyForex (flaky_client pick) alice_options
          (empty_transaction_db, (True, alice_usd 1000))) =
     (\<lparr>forexOrders = [alice_order],
       forexTxns = [(initiatedForexTxn (0, alice_order))
          \<lparr>t_status := Txn_FAILED, t_errorMessage := Some ''wallet call failed'',
           t_errorStatus := Some UNAVAILABLE\<rparr>],
       retryQueue = [alice_job], notifications = []\<rparr>,
      (False, alice_usd 1000))"
proof -
  have call: "flaky_client pick (True, alice_usd 1000) (buyForexRequest (0, alice_order)) =
      (Inl (UNAVAILABLE, ''wallet call failed''), (False, alice_usd 1000))"
    by (simp add: flaky_client_def)
  show ?thesis
    using processForexPurchase_transient[where W = "flaky_client pick"
        and forexOrder = "(0, alice_order)"
        and t = "empty_transaction_db\<lparr>forexOrders := [alice_order]\<rparr>", OF call]
    by (simp add: transactions_buyForex_def Let_def alice_options_order
        empty_transaction_db_def alice_job_def)
qed

lemma alice_retried_state:
  "alice_retried pick =
     (\<lparr>forexOrders = [alice_order\<lparr>o_status := Order_COMPLETED, o_retryAttempts := 1\<rparr>],
       forexTxns = [(initiatedForexTxn (0, alice_order))
          \<lparr>t_status := Txn_FAILED, t_errorMessage := Some ''wallet call failed'',
           t_errorStatus := Some UNAVAILABLE\<rparr>,
          (initiatedForexTxn (0, alice_order\<lparr>o_retryAttempts := 1\<rparr>))
          \<lparr>t_status := Txn_COMPLETED, t_exchangeRate := Some (11 / 10),
           t_targetAmount := Some 110\<rparr>],
       retryQueue = [],
       notifications = [createTransactionEmail
          (EmailSuccess (o_userEmail alice_order) (o_targetCurrency alice_order) 0 1
             (o_baseCurrency alice_order) (toFixed 2 110) (toFixed 4 (11 / 10)))]\<rparr>,
      (False, alice_after 900 110 1))"
proof -
  let ?ord = "alice_order\<lparr>o_retryAttempts := 1\<rparr>"
  let ?t = "\<lparr>forexOrders = [alice_order],
       forexTxns = [(initiatedForexTxn (0, alice_order))
          \<lparr>t_status := Txn_FAILED, t_errorMessage := Some ''wallet call failed'',
           t_errorStatus := Some UNAVAILABLE\<rparr>],
       retryQueue = [], notifications = []\<rparr>"
  have a: "o_retryAttempts alice_order = 0" by (simp add: alice_order_def)
  have pre: "ev_orderId alice_job < length (forexOrders ?t)"
    "ev_transactionId alice_job < length (forexTxns ?t)"
    "o_retryAttempts (forexOrders ?t ! ev_orderId alice_job) + 1 < maxForexRetries None"
    by (simp_all add: alice_job_def a maxForexRetries_def)
  have req: "buyForexRequest (0, ?ord) = buy_usd_eur ''alice'' 100"
    by (rule alice_request) (simp_all add: alice_order_def)
  have call: "flaky_client pick (False, alice_usd 1000) (buyForexRequest (0, ?ord)) =
     (Inr \<lparr>br_message = ''success'', br_success = True, br_exchangeRate = 11 / 10,
           br_targetAmount = 110\<rparr>, (False, alice_after 900 110 1))"
    unfolding req by (rule flaky_client_up[OF alice_first_call])
  have h: "handleRetry (flaky_client pick) None alice_job (?t, (False, alice_usd 1000)) =
      snd (processForexPurchase (flaky_client pick) (0, ?ord)
             (?t\<lparr>forexOrders := [?ord]\<rparr>, (False, alice_usd 1000)))"
    using handleRetry_retries[where W = "flaky_client pick" and w = "(False, alice_usd 1000)",
        OF pre]
    by (simp add: alice_job_def a)
  show ?thesis
    unfolding alice_retried_def alice_failed_once
    using processForexPurchase_success[where W = "flaky_client pick" and forexOrder = "(0, ?ord)"
        and t = "?t\<lparr>forexOrders := [?ord]\<rparr>", OF call]
    by (simp add: h updateById_def del: createTransactionEmail.simps)
qed

text \<open>
  C1: neither \<open>handleRetry\<close> nor \<open>processForexPurchase\<close> looks at the status of the order
  or of its ForexTransactions. Alice's order of 100 USD fails once while the wallet
  service is unavailable (the job \<open>alice_job\<close> is enqueued), and the worker's retry
  completes it: the order is COMPLETED, the wallets hold 900 USD and 110 EUR after one
  transfer. When the queue delivers the same job a second time, the order is executed
  again: a third ForexTransaction row and a second transfer, after which the wallets hold
  800 USD and 220 EUR.
\<close>

theorem completed_order_is_executed_again:
  "retryQueue (fst (snd (transactions_buyForex (flaky_client pick) alice_options
      (empty_transaction_db, (True, alice_usd 1000))))) = [alice_job] \<and>
   map o_status (forexOrders (fst (alice_retried pick))) = [Order_COMPLETED] \<and>
   map t_status (forexTxns (fst (alice_retried pick))) = [Txn_FAILED, Txn_COMPLETED] \<and>
   retryQueue (fst (alice_retried pick)) = [] \<and>
   snd (alice_retried pick) = (False, alice_after 900 110 1) \<and>
   snd (handleRetry (flaky_client pick) None alice_job (alice_retried pick)) =
     (False, alice_after 800 220 2) \<and>
   map t_status (forexTxns (fst (handleRetry (flaky_client pick) None alice_job
       (alice_retried pick)))) =
     [Txn_FAILED, Txn_COMPLETED, Txn_COMPLETED]"
proof -
  let ?ord = "alice_order\<lparr>o_status := Order_COMPLETED, o_retryAttempts := 2\<rparr>"
  obtain t where t: "alice_retried pick = (t, (False, alice_after 900 110 1))"
    and orders: "forexOrders t = [alice_order\<lparr>o_status := Order_COMPLETED, o_retryAttempts := 1\<rparr>]"
    and txns: "map t_status (forexTxns t) = [Txn_FAILED, Txn_COMPLETED]"
    and queue: "retryQueue t = []"
    using alice_retried_state by simp
  from txns have len: "length (forexTxns t) = 2"
    by (metis length_map length_Cons list.size(3) numeral_2_eq_2)
  have pre: "ev_orderId alice_job < length (forexOrders t)"
    "ev_transactionId alice_job < length (forexTxns t)"
    "o_retryAttempts (forexOrders t ! ev_orderId alice_job) + 1 < maxForexRetries None"
    by (simp_all add: alice_job_def orders len maxForexRetries_def)
  have req: "buyForexRequest (0, ?ord) = buy_usd_eur ''alice'' 100"
    by (rule alice_request) (simp_all add: alice_order_def)
  have call: "flaky_client pick (False, alice_after 900 110 1) (buyForexRequest (0, ?ord)) =
     (Inr \<lparr>br_message = ''success'', br_success = True, br_exchangeRate = 11 / 10,
           br_targetAmount = 110\<rparr>, (False, alice_after 800 220 2))"
    unfolding req by (rule flaky_client_up[OF alice_second_call])
  have h: "handleRetry (flaky_client pick) None alice_job (alice_retried pick) =
      snd (processForexPurchase (flaky_client pick) (0, ?ord)
             (t\<lparr>forexOrders := [?ord]\<rparr>, (False, alice_after 900 110 1)))"
    unfolding t
    using handleRetry_retries[where W = "flaky_client pick"
        and w = "(False, alice_after 900 110 1)",
        OF pre]
    by (simp add: alice_job_def orders)
  note p = processForexPurchase_success[where W = "flaky_client pick" and forexOrder = "(0, ?ord)"
        and t = "t\<lparr>forexOrders := [?ord]\<rparr>", OF call]
  have 1: "snd (handleRetry (flaky_client pick) None alice_job (alice_retried pick)) =
     (False, alice_after 800 220 2)"
    unfolding h p by simp
  have 2: "map t_status (forexTxns (fst (handleRetry (flaky_client pick) None alice_job
      (alice_retried pick)))) = [Txn_FAILED, Txn_COMPLETED, Txn_COMPLETED]"
    unfolding h p by (simp add: txns)
  show ?thesis
    using 1 2 by (simp add: alice_failed_once t orders txns queue)
qed

end
